theory Spec2Isabelle
  imports Main "HOL-Library.AList"
begin

section \<open>JavaScript values\<close>

text \<open>
  The values that flow through the hot-reload engine (\<^verbatim>\<open>dynreload.mjs\<close>) and the server
  manager (\<^verbatim>\<open>dynexpress.mjs\<close>): route descriptors, module namespaces, ports and options.
  Numbers are integers, a function object is identified by a number, an object is the list
  of its own properties in insertion order.
\<close>

datatype jsval =
    JUndefined
  | JNull
  | JBool bool
  | JNum int
  | JStr string
  | JFun nat
  | JArr "jsval list"
  | JObj "(string \<times> jsval) list"

datatype jstype = TUndefined | TObject | TBoolean | TNumber | TString | TFunction

fun typeof :: "jsval \<Rightarrow> jstype" where
  "typeof JUndefined = TUndefined"
| "typeof JNull = TObject"
| "typeof (JBool b) = TBoolean"
| "typeof (JNum n) = TNumber"
| "typeof (JStr s) = TString"
| "typeof (JFun f) = TFunction"
| "typeof (JArr xs) = TObject"
| "typeof (JObj ps) = TObject"

text \<open>Truthiness, as used by \<^verbatim>\<open>!x\<close>, \<^verbatim>\<open>x && y\<close> and \<^verbatim>\<open>x || y\<close>.\<close>

fun truthy :: "jsval \<Rightarrow> bool" where
  "truthy JUndefined = False"
| "truthy JNull = False"
| "truthy (JBool b) = b"
| "truthy (JNum n) = (n \<noteq> 0)"
| "truthy (JStr s) = (s \<noteq> [])"
| "truthy (JFun f) = True"
| "truthy (JArr xs) = True"
| "truthy (JObj ps) = True"

fun nullish :: "jsval \<Rightarrow> bool" where
  "nullish JUndefined = True"
| "nullish JNull = True"
| "nullish v = False"

text \<open>
  Property read \<^verbatim>\<open>v.k\<close> for the fixed keys the sources read (\<^verbatim>\<open>method\<close>, \<^verbatim>\<open>path\<close>,
  \<^verbatim>\<open>handler\<close>, \<^verbatim>\<open>middleware\<close>, \<^verbatim>\<open>default\<close>) on a value that is neither \<^verbatim>\<open>undefined\<close> nor
  \<^verbatim>\<open>null\<close> (those throw, and every caller below tests \<open>nullish\<close> first where the source can
  throw). No built-in prototype has a member of one of these names, so the own properties
  decide. A read with a key that is data (the launch selector) is \<open>get_member\<close> below.
\<close>

fun get_prop :: "jsval \<Rightarrow> string \<Rightarrow> jsval" where
  "get_prop (JObj ps) k = (case map_of ps k of Some v \<Rightarrow> v | None \<Rightarrow> JUndefined)"
| "get_prop (JArr xs) k = (if k = ''length'' then JNum (int (length xs)) else JUndefined)"
| "get_prop v k = JUndefined"

text \<open>
  Strings hold UTF-8. \<^verbatim>\<open>String.prototype.toLowerCase\<close> maps the ASCII capitals, and the
  Kelvin sign (U+212A, the one character outside ASCII whose lower case is an ASCII
  letter) to \<^verbatim>\<open>k\<close>; the other letters outside ASCII have their lower case outside ASCII
  and are left as they are.
\<close>

definition toLowerCase_char :: "char \<Rightarrow> char" where
  "toLowerCase_char c =
     (case map_of (zip ''ABCDEFGHIJKLMNOPQRSTUVWXYZ'' ''abcdefghijklmnopqrstuvwxyz'') c of
        Some l \<Rightarrow> l
      | None \<Rightarrow> c)"

fun toLowerCase :: "string \<Rightarrow> string" where
  "toLowerCase [] = []"
| "toLowerCase (c # s) =
     (if take 3 (c # s) = [CHR 0xE2, CHR 0x84, CHR 0xAA] then CHR ''k'' # toLowerCase (drop 2 s)
      else toLowerCase_char c # toLowerCase s)"

declare toLowerCase.simps [simp del]

text \<open>Decimal digits, and the own properties of a value: those listed, and for an array
  its length and its elements under their index.\<close>

definition is_digit :: "char \<Rightarrow> bool" where
  "is_digit c = (let n = (of_char c :: nat) in 48 \<le> n \<and> n \<le> 57)"

definition digits_value :: "string \<Rightarrow> int" where
  "digits_value ds = foldl (\<lambda>acc c. 10 * acc + (int (of_char c) - 48)) 0 ds"

definition array_index :: "string \<Rightarrow> int option" where
  "array_index k =
     (if k \<noteq> [] \<and> list_all is_digit k \<and> (k = ''0'' \<or> hd k \<noteq> CHR ''0'')
        then Some (digits_value k)
      else None)"

fun own_property :: "jsval \<Rightarrow> string \<Rightarrow> jsval option" where
  "own_property (JObj ps) k = map_of ps k"
| "own_property (JArr xs) k =
     (if k = ''length'' then Some (JNum (int (length xs)))
      else (case array_index k of
              Some i \<Rightarrow> if i < int (length xs) then Some (xs ! nat i) else None
            | None \<Rightarrow> None))"
| "own_property v k = None"

section \<open>Errors\<close>

text \<open>
  Every \<^verbatim>\<open>throw\<close> of the two source files is a constructor of \<open>message\<close>; \<open>MsgRuntime\<close> is
  the message of an error raised by a collaborator (module loader, file system, network).
  \<open>js_error\<close> keeps the class of the thrown object, since \<^verbatim>\<open>newServer\<close> re-throws every
  failure as a plain \<^verbatim>\<open>Error\<close> with the same message.
\<close>

datatype message =
    MsgRoutesMustBeArray
  | MsgEachRouteProps
  | MsgInvalidHttpMethod jsval
  | MsgInvalidPath jsval
  | MsgHandlerMustBeFunction
  | MsgFileDoesNotExist string
  | MsgServerNameRequired
  | MsgRouterFileExt
  | MsgRouterFileNotFound string
  | MsgRoutersInvalid
  | MsgInvalidRouteConfig jsval jsval
  | MsgUnsupportedMethod jsval
  | MsgPortRange
  | MsgNoAvailablePort nat jsval
  | MsgPortInUse int
  | MsgInsufficientPermissions int
  | MsgPropertyNotFound string
  | MsgServerNotFound string
  | MsgRouteMethodRequired
  | MsgRoutePathRequired
  | MsgRouteHandlerRequired
  | MsgNotAFunction string
  | MsgCannotReadProperties
  | MsgBadPort int
  | MsgRuntime nat

datatype js_error = Error message | TypeError message | RangeError message

fun error_message :: "js_error \<Rightarrow> message" where
  "error_message (Error m) = m"
| "error_message (TypeError m) = m"
| "error_message (RangeError m) = m"

section \<open>The hot-reload engine (\<^verbatim>\<open>utils/dynreload.mjs\<close>)\<close>

type_synonym path = string

text \<open>
  A JavaScript \<^verbatim>\<open>Map\<close> is an association list in insertion order: \<open>AList.update\<close> is
  \<^verbatim>\<open>set\<close> (an existing key keeps its place), \<open>AList.delete\<close> is \<^verbatim>\<open>delete\<close>, \<open>map_of\<close> is
  \<^verbatim>\<open>get\<close>. A \<^verbatim>\<open>Set\<close> is a list without duplicates in insertion order.
\<close>

type_synonym graph = "(path \<times> path list) list"

definition has :: "('k \<times> 'v) list \<Rightarrow> 'k \<Rightarrow> bool" where
  "has m k = (map_of m k \<noteq> None)"

definition set_add :: "'a list \<Rightarrow> 'a \<Rightarrow> 'a list" where
  "set_add s x = (if x \<in> set s then s else s @ [x])"

record module_info =
  module :: jsval
  lastModified :: nat
  info_filePath :: path

datatype watcher = FSWatcher path

text \<open>
  The only callback the program registers is the closure built by
  \<^verbatim>\<open>#setupHotReloading(serverName, routerFile, launch)\<close>; it is kept as its captured
  variables.
\<close>

datatype callback = RouteUpdateCallback string jsval

datatype console_line =
    ConsoleError string "js_error option"
  | ConsoleLog string

text \<open>
  \<^verbatim>\<open>this.options\<close> of a \<^verbatim>\<open>Dynreload\<close> object, together with two effects of the process the
  engine causes: the lines written to the console, and the paths that have an open
  file-system watcher (\<open>subscriptions\<close>; \<^verbatim>\<open>fs.watch\<close> adds one, \<^verbatim>\<open>watcher.close()\<close> removes it).
\<close>

record dynreload =
  silent :: bool
  cache :: "(path \<times> module_info) list"
  watchedFiles :: "(path \<times> watcher) list"
  routeUpdateCallbacks :: "(path \<times> callback) list"
  lastValidModules :: "(path \<times> module_info) list"
  dependencyGraph :: graph
  maxDepth :: int
  console :: "console_line list"
  subscriptions :: "path list"

text \<open>
  An application object of the request-handling library, as far as the manager uses it:
  the router stack and the settings. A layer of the stack has a route or has none;
  \<^verbatim>\<open>app.use(f)\<close> appends a layer without a route, and a route layer records the registration
  function that was called and its arguments (path, middleware if any, handler).
\<close>

datatype layer =
    MiddlewareLayer string
  | RouteLayer string jsval "jsval option" jsval

fun has_route :: "layer \<Rightarrow> bool" where
  "has_route (RouteLayer m p mw h) = True"
| "has_route (MiddlewareLayer n) = False"

record app =
  stack :: "layer list"
  settings :: "(string \<times> jsval) list"

text \<open>
  What the collaborators answer during one operation. Paths are absolute, so
  \<^verbatim>\<open>path.resolve\<close> and \<^verbatim>\<open>pathToFileURL\<close> return their argument.
  \<^item> \<open>import_module\<close>: the dynamic \<^verbatim>\<open>import()\<close> of a file, which throws (syntax error,
    exception at top level) or yields the module namespace;
  \<^item> \<open>statSync\<close>: the modification time, or the error \<^verbatim>\<open>fs.statSync\<close> throws;
  \<^item> \<open>extractDependencies\<close>: the list \<^verbatim>\<open>#extractDependencies\<close> returns (it lexes the file,
    resolves relative imports against the disk and never throws);
  \<^item> \<open>fs_watch\<close>: the error \<^verbatim>\<open>fs.watch\<close> throws, if any;
  \<^item> \<open>port_probe\<close>: for a port that \<^verbatim>\<open>listen\<close> accepts, whether the transient \<^verbatim>\<open>net\<close> server
    reaches \<^verbatim>\<open>listening\<close> (otherwise it emits \<^verbatim>\<open>error\<close>);
  \<^item> \<open>app_has_function\<close>: whether \<^verbatim>\<open>typeof app[name] === "function"\<close> on an application
    object of the request-handling library;
  \<^item> \<open>app_call\<close>: what the call \<^verbatim>\<open>app[name](path, [middleware,] handler)\<close> of such a function
    does: the application object as the call leaves it, and the error it throws, if any.
    For a route-registration method of the library and a path it can compile this appends
    a route layer; \<^verbatim>\<open>use\<close>, \<^verbatim>\<open>set\<close>, \<^verbatim>\<open>listen\<close> and the like do other things;
  \<^item> \<open>app_listen\<close>: the error event of \<^verbatim>\<open>app.listen(port)\<close>, if any;
  \<^item> \<open>server_close\<close>: the error \<^verbatim>\<open>server.close\<close> passes to its callback, if any;
  \<^item> \<open>builtin_member\<close>: what a property read \<^verbatim>\<open>v[k]\<close> finds when \<open>k\<close> is not an own property
    listed in the value: a member inherited from the prototype chain (\<^verbatim>\<open>entries\<close> or \<^verbatim>\<open>map\<close>
    of an array, \<^verbatim>\<open>constructor\<close> of an object) or a built-in property of a string or
    function, \<^verbatim>\<open>undefined\<close> when there is none;
  \<^item> \<open>to_string\<close>: the string conversion of an object, array or function, which runs its
    \<^verbatim>\<open>toString\<close> or \<^verbatim>\<open>valueOf\<close> and may throw.
\<close>

datatype listen_error = EADDRINUSE | EACCES | OtherListenError js_error

record env =
  existsSync :: "path \<Rightarrow> bool"
  import_module :: "path \<Rightarrow> js_error + jsval"
  statSync :: "path \<Rightarrow> js_error + nat"
  extractDependencies :: "path \<Rightarrow> path list"
  date_now :: nat
  fs_watch :: "path \<Rightarrow> js_error option"
  port_probe :: "int \<Rightarrow> bool"
  app_has_function :: "string \<Rightarrow> bool"
  app_call :: "string \<Rightarrow> jsval \<Rightarrow> jsval option \<Rightarrow> jsval \<Rightarrow> app \<Rightarrow> app \<times> js_error option"
  app_listen :: "int \<Rightarrow> listen_error option"
  server_close :: "int \<Rightarrow> js_error option"
  builtin_member :: "jsval \<Rightarrow> string \<Rightarrow> jsval"
  to_string :: "jsval \<Rightarrow> js_error + string"

text \<open>
  Property read \<^verbatim>\<open>v[k]\<close> with any key, on a value that is neither \<^verbatim>\<open>undefined\<close> nor
  \<^verbatim>\<open>null\<close>: the own property if there is one, else what the runtime finds.
\<close>

definition get_member :: "env \<Rightarrow> jsval \<Rightarrow> string \<Rightarrow> jsval" where
  "get_member e v k = (case own_property v k of Some x \<Rightarrow> x | None \<Rightarrow> builtin_member e v k)"

definition console_error :: "dynreload \<Rightarrow> string \<Rightarrow> js_error option \<Rightarrow> dynreload" where
  "console_error st text e =
     (if silent st then st else st\<lparr>console := console st @ [ConsoleError text e]\<rparr>)"

definition console_log :: "dynreload \<Rightarrow> string \<Rightarrow> dynreload" where
  "console_log st text =
     (if silent st then st else st\<lparr>console := console st @ [ConsoleLog text]\<rparr>)"

subsection \<open>\<^verbatim>\<open>#validateRouteStructure\<close>\<close>

definition validMethods :: "string list" where
  "validMethods = [''get'', ''post'', ''put'', ''delete'', ''patch'', ''options'', ''head'']"

definition startsWith_slash :: "string \<Rightarrow> bool" where
  "startsWith_slash s = (case s of [] \<Rightarrow> False | c # _ \<Rightarrow> c = CHR ''/'')"

text \<open>
  The body of the \<^verbatim>\<open>for\<close> loop for one route. Reading \<^verbatim>\<open>route.method\<close> of
  \<^verbatim>\<open>undefined\<close> or \<^verbatim>\<open>null\<close> throws a TypeError, and so does \<^verbatim>\<open>toLowerCase\<close> on a truthy
  method that is not a string.
\<close>

definition validateRoute :: "jsval \<Rightarrow> js_error option" where
  "validateRoute route =
     (if nullish route then Some (TypeError MsgCannotReadProperties)
      else if \<not> truthy (get_prop route ''method'') \<or> \<not> truthy (get_prop route ''path'')
              \<or> \<not> truthy (get_prop route ''handler'')
        then Some (Error MsgEachRouteProps)
      else (case get_prop route ''method'' of
              JStr m \<Rightarrow>
                if toLowerCase m \<notin> set validMethods
                  then Some (Error (MsgInvalidHttpMethod (JStr m)))
                else (case get_prop route ''path'' of
                        JStr p \<Rightarrow>
                          if \<not> startsWith_slash p then Some (Error (MsgInvalidPath (JStr p)))
                          else if typeof (get_prop route ''handler'') \<noteq> TFunction
                            then Some (Error MsgHandlerMustBeFunction)
                          else None
                      | v \<Rightarrow> Some (Error (MsgInvalidPath v)))
            | v \<Rightarrow> Some (TypeError (MsgNotAFunction ''route.method.toLowerCase''))))"

fun validateRoutes_loop :: "jsval list \<Rightarrow> js_error + bool" where
  "validateRoutes_loop [] = Inr True"
| "validateRoutes_loop (route # routes) =
     (case validateRoute route of
        Some e \<Rightarrow> Inl e
      | None \<Rightarrow> validateRoutes_loop routes)"

definition validateRouteStructure :: "jsval \<Rightarrow> js_error + bool" where
  "validateRouteStructure routes =
     (case routes of
        JArr rs \<Rightarrow> validateRoutes_loop rs
      | _ \<Rightarrow> Inl (Error MsgRoutesMustBeArray))"

subsection \<open>\<^verbatim>\<open>#tryImportModule\<close>\<close>

datatype import_result =
    ImportSuccess jsval jsval
  | ImportFailure js_error

text \<open>
  \<^verbatim>\<open>routes = module.default || module\<close>. The call of \<^verbatim>\<open>#validateRouteStructure\<close> is commented
  out in the source (``Optional validation''), so an array is returned unchecked.
\<close>

definition tryImportModule :: "env \<Rightarrow> path \<Rightarrow> import_result" where
  "tryImportModule e fileUrl =
     (case import_module e fileUrl of
        Inl err \<Rightarrow> ImportFailure err
      | Inr m \<Rightarrow>
          if nullish m then ImportFailure (TypeError MsgCannotReadProperties)
          else ImportSuccess
                 (if truthy (get_prop m ''default'') then get_prop m ''default'' else m) m)"

subsection \<open>\<^verbatim>\<open>#updateDependencyGraph\<close>\<close>

function updateDependencyGraph :: "env \<Rightarrow> int \<Rightarrow> graph \<Rightarrow> path \<Rightarrow> int \<Rightarrow> graph" where
  "updateDependencyGraph e maxD g rootPath currentDepth =
     (if currentDepth > maxD then g
      else
        (let dependencies = extractDependencies e rootPath;
             g1 = AList.update rootPath dependencies g
         in if currentDepth < maxD then
              fold (\<lambda>dependency g'.
                      if \<not> has g' dependency
                        then updateDependencyGraph e maxD g' dependency (currentDepth + 1)
                      else g')
                dependencies g1
            else g1))"
  by pat_completeness auto
termination
  by (relation "measure (\<lambda>(e, maxD, g, rootPath, currentDepth). nat (maxD + 1 - currentDepth))")
    auto

subsection \<open>\<^verbatim>\<open>#findAffectedModules\<close>\<close>

text \<open>
  The method calls itself for every module whose dependency list includes the changed file,
  with no record of the modules already visited, so its recursion need not end. The first
  argument bounds the depth of the call stack: \<open>None\<close> is a run that needs a deeper stack.
  \<open>affected_loop\<close> is the \<^verbatim>\<open>for\<close> loop over the entries of the graph.
\<close>

fun affected_loop ::
  "(path \<Rightarrow> path list option) \<Rightarrow> path \<Rightarrow> graph \<Rightarrow> path list \<Rightarrow> path list option" where
  "affected_loop recur changedFilePath [] affectedModules = Some affectedModules"
| "affected_loop recur changedFilePath ((modulePath, dependencies) # entries) affectedModules =
     (if changedFilePath \<in> set dependencies then
        (case recur modulePath of
           None \<Rightarrow> None
         | Some indirectlyAffected \<Rightarrow>
             affected_loop recur changedFilePath entries
               (fold (\<lambda>m acc. set_add acc m) indirectlyAffected
                  (set_add affectedModules modulePath)))
      else affected_loop recur changedFilePath entries affectedModules)"

fun findAffectedModules :: "nat \<Rightarrow> graph \<Rightarrow> path \<Rightarrow> path list option" where
  "findAffectedModules 0 g changedFilePath = None"
| "findAffectedModules (Suc n) g changedFilePath =
     affected_loop (\<lambda>m. findAffectedModules n g m) changedFilePath g [changedFilePath]"

text \<open>The edges of the graph: \<open>(m, d)\<close> when the dependency list of \<open>m\<close> includes \<open>d\<close>.\<close>

definition dep_edges :: "graph \<Rightarrow> (path \<times> path) set" where
  "dep_edges g = {(m, d). \<exists>deps. (m, deps) \<in> set g \<and> d \<in> set deps}"

subsection \<open>\<^verbatim>\<open>#reloadModule\<close>\<close>

datatype reload_result =
    ReloadSuccess jsval
  | ReloadFailure js_error

text \<open>
  \<^verbatim>\<open>{ success: true, module }\<close> or \<^verbatim>\<open>{ success: false, error }\<close>; the method catches
  everything and never throws. A failed import writes two lines to the console, a failing
  \<^verbatim>\<open>fs.statSync\<close> (caught by the outer \<^verbatim>\<open>catch\<close>) one line, unless \<open>silent\<close> is set.
\<close>

definition reloadModule :: "env \<Rightarrow> dynreload \<Rightarrow> path \<Rightarrow> dynreload \<times> reload_result" where
  "reloadModule e st filePath =
     (case tryImportModule e filePath of
        ImportFailure err \<Rightarrow>
          (console_error
             (console_error st (''Invalid module in '' @ filePath @ ''. Keeping previous version.'') None)
             ''Error:'' (Some err),
           ReloadFailure err)
      | ImportSuccess newModule m \<Rightarrow>
          (case statSync e filePath of
             Inl err \<Rightarrow>
               (console_error st (''Error reloading module '' @ filePath @ '':'') (Some err),
                ReloadFailure err)
           | Inr mtime \<Rightarrow>
               (let moduleInfo = \<lparr>module = newModule, lastModified = mtime, info_filePath = filePath\<rparr>
                in (st\<lparr>cache := AList.update filePath moduleInfo (cache st),
                        lastValidModules := AList.update filePath moduleInfo (lastValidModules st)\<rparr>,
                    ReloadSuccess newModule))))"

subsection \<open>\<^verbatim>\<open>preload\<close>\<close>

definition preload :: "env \<Rightarrow> dynreload \<Rightarrow> path \<Rightarrow> dynreload \<times> (js_error + jsval)" where
  "preload e st filePath =
     (if \<not> existsSync e filePath then
        (console_error st (''Error preloading file '' @ filePath @ '':'')
           (Some (Error (MsgFileDoesNotExist filePath))),
         Inl (Error (MsgFileDoesNotExist filePath)))
      else
        (case tryImportModule e filePath of
           ImportFailure err \<Rightarrow>
             (console_error
                (console_error st (''Error loading module '' @ filePath @ '':'') (Some err))
                (''Error preloading file '' @ filePath @ '':'') (Some err),
              Inl err)
         | ImportSuccess rs m \<Rightarrow>
             (case statSync e filePath of
                Inl err \<Rightarrow>
                  (console_error st (''Error preloading file '' @ filePath @ '':'') (Some err),
                   Inl err)
              | Inr mtime \<Rightarrow>
                  (let moduleInfo = \<lparr>module = rs, lastModified = mtime, info_filePath = filePath\<rparr>;
                       st1 = st\<lparr>cache := AList.update filePath moduleInfo (cache st),
                                lastValidModules :=
                                  AList.update filePath moduleInfo (lastValidModules st)\<rparr>;
                       st2 = st1\<lparr>dependencyGraph :=
                                  updateDependencyGraph e (maxDepth st1) (dependencyGraph st1)
                                    filePath 1\<rparr>
                   in (st2, Inr rs)))))"

subsection \<open>\<^verbatim>\<open>setRouteUpdateCallback\<close>, \<^verbatim>\<open>stopWatching\<close>, \<^verbatim>\<open>stopWatchingAll\<close>, \<^verbatim>\<open>cleanup\<close>\<close>

definition setRouteUpdateCallback :: "dynreload \<Rightarrow> path \<Rightarrow> callback \<Rightarrow> dynreload" where
  "setRouteUpdateCallback st filePath cb =
     st\<lparr>routeUpdateCallbacks := AList.update filePath cb (routeUpdateCallbacks st)\<rparr>"

text \<open>
  The watcher is closed and both entries are deleted only inside \<^verbatim>\<open>if (watcher)\<close>: for a
  path that is not watched nothing happens.
\<close>

definition stopWatching :: "dynreload \<Rightarrow> path \<Rightarrow> dynreload" where
  "stopWatching st filePath =
     (case map_of (watchedFiles st) filePath of
        None \<Rightarrow> st
      | Some (FSWatcher w) \<Rightarrow>
          st\<lparr>subscriptions := remove1 w (subscriptions st),
             watchedFiles := AList.delete filePath (watchedFiles st),
             routeUpdateCallbacks := AList.delete filePath (routeUpdateCallbacks st)\<rparr>)"

text \<open>
  The loop visits every key of \<^verbatim>\<open>watchedFiles\<close>; each step deletes only the key it
  visits, so the keys visited are those present when the loop starts.
\<close>

definition stopWatchingAll :: "dynreload \<Rightarrow> dynreload" where
  "stopWatchingAll st = fold (\<lambda>filePath s. stopWatching s filePath) (map fst (watchedFiles st)) st"

definition dynreload_cleanup :: "dynreload \<Rightarrow> dynreload" where
  "dynreload_cleanup st =
     (stopWatchingAll st)\<lparr>cache := [], routeUpdateCallbacks := [], lastValidModules := [],
        dependencyGraph := []\<rparr>"

subsection \<open>\<^verbatim>\<open>watchFile\<close> and \<^verbatim>\<open>#watchDependencies\<close>\<close>

text \<open>
  The two methods call each other; the first argument bounds the depth of their calls, and
  \<open>None\<close> is a run that needs more. \<^verbatim>\<open>watchFile\<close> registers the change handler with
  \<^verbatim>\<open>fs.watch\<close>; when that throws, the \<^verbatim>\<open>catch\<close> logs and calls \<^verbatim>\<open>stopWatching\<close>.
\<close>

fun fold_option :: "('a \<Rightarrow> 's \<Rightarrow> 's option) \<Rightarrow> 'a list \<Rightarrow> 's \<Rightarrow> 's option" where
  "fold_option f [] s = Some s"
| "fold_option f (x # xs) s = (case f x s of None \<Rightarrow> None | Some s' \<Rightarrow> fold_option f xs s')"

fun watchFile :: "nat \<Rightarrow> env \<Rightarrow> dynreload \<Rightarrow> path \<Rightarrow> dynreload option"
  and watchDependencies :: "nat \<Rightarrow> env \<Rightarrow> dynreload \<Rightarrow> path \<Rightarrow> int \<Rightarrow> dynreload option" where
  "watchFile 0 e st filePath = None"
| "watchFile (Suc n) e st filePath =
     (if has (watchedFiles st) filePath then Some st
      else
        (case fs_watch e filePath of
           Some err \<Rightarrow>
             Some (stopWatching
                     (console_error st (''Error setting up watcher for '' @ filePath @ '':'') (Some err))
                     filePath)
         | None \<Rightarrow>
             (let st1 = st\<lparr>subscriptions := subscriptions st @ [filePath],
                           watchedFiles := AList.update filePath (FSWatcher filePath) (watchedFiles st)\<rparr>
              in if maxDepth st1 > 1 then watchDependencies n e st1 filePath 1 else Some st1)))"
| "watchDependencies 0 e st filePath currentDepth = None"
| "watchDependencies (Suc n) e st filePath currentDepth =
     (if currentDepth \<ge> maxDepth st then Some st
      else
        fold_option
          (\<lambda>dependency s.
             if \<not> has (watchedFiles s) dependency then
               (case watchFile n e s dependency of
                  None \<Rightarrow> None
                | Some s' \<Rightarrow> watchDependencies n e s' dependency (currentDepth + 1))
             else Some s)
          (case map_of (dependencyGraph st) filePath of Some ds \<Rightarrow> ds | None \<Rightarrow> [])
          st)"

section \<open>The server manager (\<^verbatim>\<open>dynexpress.mjs\<close>)\<close>

subsection \<open>State\<close>

datatype http_server = HttpServer int

record server_instance =
  inst_app :: app
  inst_server :: http_server
  inst_routers :: jsval
  inst_pathViews :: jsval
  inst_pathPublic :: jsval
  inst_port :: int
  inst_watchFile :: jsval
  inst_launch :: jsval
  inst_moduleLoad :: jsval
  inst_startTime :: nat
  inst_lastUpdated :: "nat option"

text \<open>
  A \<^verbatim>\<open>DynExpress\<close> object: its private fields, and the ports on which a server it started is
  listening (\<open>listening\<close>; \<^verbatim>\<open>app.listen\<close> adds one, a completed \<^verbatim>\<open>server.close\<close> removes it).
\<close>

record dynexpress =
  instances :: "(string \<times> server_instance) list"
  dynreload :: dynreload
  defaultViewsPath :: string
  defaultPublicPath :: string
  listening :: "int list"

text \<open>The argument of \<^verbatim>\<open>newServer\<close>; a property that is absent is \<open>JUndefined\<close>.\<close>

record server_config =
  cfg_name :: jsval
  cfg_routers :: jsval
  cfg_port :: jsval
  cfg_pathViews :: jsval
  cfg_pathPublic :: jsval
  cfg_watchFile :: jsval
  cfg_launch :: jsval

definition default_to :: "jsval \<Rightarrow> jsval \<Rightarrow> jsval" where
  "default_to d v = (if v = JUndefined then d else v)"

subsection \<open>\<^verbatim>\<open>#validateRouters\<close>\<close>

text \<open>\<^verbatim>\<open>path.extname\<close>: from the last dot of the last path segment, unless that dot leads it.\<close>

definition basename :: "path \<Rightarrow> string" where
  "basename p =
     rev (takeWhile (\<lambda>c. c \<noteq> CHR ''/'') (dropWhile (\<lambda>c. c = CHR ''/'') (rev p)))"

definition extname :: "path \<Rightarrow> string" where
  "extname p =
     (let b = basename p;
          ext = rev (takeWhile (\<lambda>c. c \<noteq> CHR ''.'') (rev b))
      in if CHR ''.'' \<notin> set b \<or> b = ''..'' \<or> length ext + 1 = length b then []
         else CHR ''.'' # ext)"

datatype validated = ArrayRoutes jsval | FileRoutes path

definition route_shape_ok :: "jsval \<Rightarrow> bool" where
  "route_shape_ok route =
     (truthy route \<and> typeof route = TObject
      \<and> typeof (get_prop route ''method'') = TString
      \<and> typeof (get_prop route ''path'') = TString
      \<and> typeof (get_prop route ''handler'') = TFunction)"

definition validateRouters :: "env \<Rightarrow> jsval \<Rightarrow> js_error + validated" where
  "validateRouters e routers =
     (case routers of
        JArr rs \<Rightarrow>
          if \<not> list_all route_shape_ok rs then Inl (Error MsgEachRouteProps)
          else Inr (ArrayRoutes routers)
      | JStr f \<Rightarrow>
          if extname f \<noteq> ''.js'' \<and> extname f \<noteq> ''.mjs'' then Inl (Error MsgRouterFileExt)
          else if \<not> existsSync e f then Inl (Error (MsgRouterFileNotFound f))
          else Inr (FileRoutes f)
      | _ \<Rightarrow> Inl (Error MsgRoutersInvalid))"

subsection \<open>\<^verbatim>\<open>#setupMiddleware\<close>\<close>

fun static_dir :: "env \<Rightarrow> jsval \<Rightarrow> bool" where
  "static_dir e (JStr d) = existsSync e d"
| "static_dir e v = False"

fun static_layer :: "jsval \<Rightarrow> layer" where
  "static_layer (JStr d) = MiddlewareLayer (''static '' @ d)"
| "static_layer v = MiddlewareLayer ''static''"

definition setupMiddleware :: "env \<Rightarrow> dynexpress \<Rightarrow> app \<Rightarrow> jsval \<Rightarrow> jsval \<Rightarrow> app" where
  "setupMiddleware e dx app pathViews pathPublic =
     (let publicDirs =
            (case pathPublic of
               JArr ds \<Rightarrow> ds
             | _ \<Rightarrow> [if truthy pathPublic then pathPublic else JStr (defaultPublicPath dx)])
      in app\<lparr>stack := stack app @ [MiddlewareLayer ''urlencoded'', MiddlewareLayer ''json'']
                 @ map static_layer (filter (static_dir e) publicDirs)
                 @ [MiddlewareLayer ''security headers''],
              settings :=
                AList.update ''views''
                  (if truthy pathViews then pathViews else JStr (defaultViewsPath dx))
                  (AList.update ''view engine'' (JStr ''ejs'') (settings app))\<rparr>)"

subsection \<open>\<^verbatim>\<open>#setupRoutes\<close>\<close>

definition middleware_arg :: "jsval \<Rightarrow> jsval option" where
  "middleware_arg middleware =
     (if truthy middleware \<and> typeof middleware = TFunction then Some middleware else None)"

text \<open>
  \<^verbatim>\<open>routes.forEach\<close>: the application object is mutated route by route, so when a route
  throws, the routes before it are already on the stack. The result is the application
  object as the call leaves it and the error thrown, if any. The call
  \<^verbatim>\<open>app[methodLower](routePath, [middleware,] handler)\<close> is the library's.
\<close>

fun setupRoutes_forEach :: "env \<Rightarrow> app \<Rightarrow> jsval list \<Rightarrow> app \<times> js_error option" where
  "setupRoutes_forEach e app [] = (app, None)"
| "setupRoutes_forEach e app (route # rest) =
     (if nullish route then (app, Some (TypeError MsgCannotReadProperties))
      else if \<not> truthy (get_prop route ''method'') \<or> \<not> truthy (get_prop route ''path'')
              \<or> \<not> truthy (get_prop route ''handler'')
        then (app, Some (Error (MsgInvalidRouteConfig (get_prop route ''method'')
                                   (get_prop route ''path''))))
      else (case get_prop route ''method'' of
              JStr method \<Rightarrow>
                if \<not> app_has_function e (toLowerCase method)
                  then (app, Some (Error (MsgUnsupportedMethod (JStr method))))
                else (case app_call e (toLowerCase method) (get_prop route ''path'')
                             (middleware_arg (get_prop route ''middleware''))
                             (get_prop route ''handler'') app of
                        (app', Some err) \<Rightarrow> (app', Some err)
                      | (app', None) \<Rightarrow> setupRoutes_forEach e app' rest)
            | v \<Rightarrow> (app, Some (TypeError (MsgNotAFunction ''method.toLowerCase'')))))"

definition setupRoutes :: "env \<Rightarrow> app \<Rightarrow> jsval \<Rightarrow> app \<times> js_error option" where
  "setupRoutes e app routes =
     (case routes of
        JArr rs \<Rightarrow> setupRoutes_forEach e app rs
      | _ \<Rightarrow> (app, Some (TypeError MsgRoutesMustBeArray)))"

subsection \<open>\<^verbatim>\<open>#isPortAvailable\<close> and \<^verbatim>\<open>#findAvailablePort\<close>\<close>

text \<open>
  The promise of \<^verbatim>\<open>#isPortAvailable\<close>. \<^verbatim>\<open>listen\<close> throws a RangeError for a number that is
  not a port (above 65535); the throw happens inside the promise executor, so the promise
  rejects and the \<^verbatim>\<open>await\<close> in \<^verbatim>\<open>#findAvailablePort\<close> throws. Otherwise the promise resolves
  to \<^verbatim>\<open>true\<close> on \<^verbatim>\<open>listening\<close> and to \<^verbatim>\<open>false\<close> on \<^verbatim>\<open>error\<close>.
\<close>

definition isPortAvailable :: "env \<Rightarrow> int \<Rightarrow> js_error + bool" where
  "isPortAvailable e port =
     (if port < 0 \<or> 65535 < port then Inl (RangeError (MsgBadPort port))
      else Inr (port_probe e port))"

text \<open>
  \<^verbatim>\<open>parseInt(startPort, 10)\<close>; \<open>Inr None\<close> is \<^verbatim>\<open>NaN\<close>. The argument is converted to a string,
  which is read after its leading white space (the white space and line terminators of
  the language, in UTF-8): an optional sign, then decimal digits up to the first other
  character. A number below \<open>10\<^sup>2\<^sup>1\<close> prints as its digits; from there on it prints in
  exponent notation, of which only the first digit is read. \<^verbatim>\<open>undefined\<close>, \<^verbatim>\<open>null\<close> and the
  booleans print as words. Converting an object, array or function is the runtime's.
\<close>

definition is_space :: "char \<Rightarrow> bool" where
  "is_space c = (let n = (of_char c :: nat) in n = 32 \<or> (9 \<le> n \<and> n \<le> 13))"

definition unicode_spaces :: "string list" where
  "unicode_spaces =
     [[CHR 0xC2, CHR 0xA0],
      [CHR 0xE1, CHR 0x9A, CHR 0x80],
      [CHR 0xE2, CHR 0x80, CHR 0x80],
      [CHR 0xE2, CHR 0x80, CHR 0x81],
      [CHR 0xE2, CHR 0x80, CHR 0x82],
      [CHR 0xE2, CHR 0x80, CHR 0x83],
      [CHR 0xE2, CHR 0x80, CHR 0x84],
      [CHR 0xE2, CHR 0x80, CHR 0x85],
      [CHR 0xE2, CHR 0x80, CHR 0x86],
      [CHR 0xE2, CHR 0x80, CHR 0x87],
      [CHR 0xE2, CHR 0x80, CHR 0x88],
      [CHR 0xE2, CHR 0x80, CHR 0x89],
      [CHR 0xE2, CHR 0x80, CHR 0x8A],
      [CHR 0xE2, CHR 0x80, CHR 0xA8],
      [CHR 0xE2, CHR 0x80, CHR 0xA9],
      [CHR 0xE2, CHR 0x80, CHR 0xAF],
      [CHR 0xE2, CHR 0x81, CHR 0x9F],
      [CHR 0xE3, CHR 0x80, CHR 0x80],
      [CHR 0xEF, CHR 0xBB, CHR 0xBF]]"

definition white_space_length :: "string \<Rightarrow> nat" where
  "white_space_length s =
     (case s of
        [] \<Rightarrow> 0
      | c # r \<Rightarrow>
          if is_space c then 1
          else (case find (\<lambda>w. take (length w) s = w) unicode_spaces of
                  Some w \<Rightarrow> length w
                | None \<Rightarrow> 0))"

function skip_white_space :: "string \<Rightarrow> string" where
  "skip_white_space s =
     (if white_space_length s = 0 then s
      else skip_white_space (drop (white_space_length s) s))"
  by pat_completeness auto
termination
  by (relation "measure length") (auto simp: white_space_length_def split: list.splits)

declare skip_white_space.simps [simp del]

definition parseInt_string :: "string \<Rightarrow> int option" where
  "parseInt_string s =
     (let t = skip_white_space s;
          neg = (case t of c # r \<Rightarrow> c = CHR ''-'' | [] \<Rightarrow> False);
          u = (case t of c # r \<Rightarrow> if c = CHR ''-'' \<or> c = CHR ''+'' then r else t | [] \<Rightarrow> []);
          ds = takeWhile is_digit u
      in if ds = [] then None
         else Some (if neg then - digits_value ds else digits_value ds))"

function leading_digit :: "int \<Rightarrow> int" where
  "leading_digit n = (if n < 10 then n else leading_digit (n div 10))"
  by pat_completeness auto
termination
  by (relation "measure nat") auto

declare leading_digit.simps [simp del]

definition parseInt_number :: "int \<Rightarrow> int" where
  "parseInt_number n =
     (if \<bar>n\<bar> < 1000000000000000000000 then n
      else sgn n * leading_digit \<bar>n\<bar>)"

fun parseInt :: "env \<Rightarrow> jsval \<Rightarrow> js_error + int option" where
  "parseInt e (JNum n) = Inr (Some (parseInt_number n))"
| "parseInt e (JStr s) = Inr (parseInt_string s)"
| "parseInt e JUndefined = Inr None"
| "parseInt e JNull = Inr None"
| "parseInt e (JBool b) = Inr None"
| "parseInt e v =
     (case to_string e v of
        Inl err \<Rightarrow> Inl err
      | Inr s \<Rightarrow> Inr (parseInt_string s))"

text \<open>
  The \<^verbatim>\<open>for\<close> loop of \<^verbatim>\<open>#findAvailablePort\<close>, by the number of attempts left: the ports
  given to \<^verbatim>\<open>listen\<close>, in order, and then the port returned, \<open>None\<close> when the attempts are
  used up, or the error thrown by a probe.
\<close>

fun probe_from :: "env \<Rightarrow> int \<Rightarrow> nat \<Rightarrow> int list \<times> (js_error + int option)" where
  "probe_from e port 0 = ([], Inr None)"
| "probe_from e port (Suc k) =
     (case isPortAvailable e port of
        Inl err \<Rightarrow> ([port], Inl err)
      | Inr True \<Rightarrow> ([port], Inr (Some port))
      | Inr False \<Rightarrow> (case probe_from e (port + 1) k of (ps, r) \<Rightarrow> (port # ps, r)))"

definition findAvailablePort :: "env \<Rightarrow> jsval \<Rightarrow> nat \<Rightarrow> int list \<times> (js_error + int)" where
  "findAvailablePort e startPort maxAttempts =
     (case parseInt e startPort of
        Inl err \<Rightarrow> ([], Inl err)
      | Inr None \<Rightarrow> ([], Inl (Error MsgPortRange))
      | Inr (Some basePort) \<Rightarrow>
          if basePort < 1024 \<or> basePort > 65535 then ([], Inl (Error MsgPortRange))
          else (case probe_from e basePort maxAttempts of
                  (ps, Inl err) \<Rightarrow> (ps, Inl err)
                | (ps, Inr (Some port)) \<Rightarrow> (ps, Inr port)
                | (ps, Inr None) \<Rightarrow>
                    (ps, Inl (Error (MsgNoAvailablePort maxAttempts startPort)))))"

subsection \<open>\<^verbatim>\<open>#startServer\<close>\<close>

definition startServer :: "env \<Rightarrow> int \<Rightarrow> js_error + http_server" where
  "startServer e port =
     (case app_listen e port of
        None \<Rightarrow> Inr (HttpServer port)
      | Some EADDRINUSE \<Rightarrow> Inl (Error (MsgPortInUse port))
      | Some EACCES \<Rightarrow> Inl (Error (MsgInsufficientPermissions port))
      | Some (OtherListenError err) \<Rightarrow> Inl err)"

subsection \<open>\<^verbatim>\<open>#setupHotReloading\<close> and the route-update callback\<close>

text \<open>
  The closure registered by \<^verbatim>\<open>#setupHotReloading\<close>, applied to the module a reload
  produced. The registry entry is replaced first (module reference and time of update); it
  shares the application object with the old one, so the routes cleared and bound
  afterwards show in it. \<open>select_routes\<close> is the expression
  \<^verbatim>\<open>launch && typeof launch === "string" ? newRoutes[launch] || newRoutes : newRoutes\<close>,
  whose property read throws on \<^verbatim>\<open>undefined\<close> and \<^verbatim>\<open>null\<close>; it is evaluated before the routes
  are cleared. Everything thrown is caught and logged.
\<close>

definition select_routes :: "env \<Rightarrow> jsval \<Rightarrow> jsval \<Rightarrow> js_error + jsval" where
  "select_routes e launch newRoutes =
     (case launch of
        JStr l \<Rightarrow>
          if l \<noteq> [] then
            (if nullish newRoutes then Inl (TypeError MsgCannotReadProperties)
             else if truthy (get_member e newRoutes l) then Inr (get_member e newRoutes l)
             else Inr newRoutes)
          else Inr newRoutes
      | _ \<Rightarrow> Inr newRoutes)"

definition routeUpdateCallback :: "env \<Rightarrow> dynexpress \<Rightarrow> string \<Rightarrow> jsval \<Rightarrow> jsval \<Rightarrow> dynexpress" where
  "routeUpdateCallback e dx serverName launch newRoutes =
     (case map_of (instances dx) serverName of
        None \<Rightarrow> dx
      | Some instance \<Rightarrow>
          (case (case select_routes e launch newRoutes of
                   Inl err \<Rightarrow> (inst_app instance, Some err)
                 | Inr routes \<Rightarrow>
                     setupRoutes e
                       ((inst_app instance)\<lparr>stack := filter (\<lambda>layer. \<not> has_route layer)
                                                        (stack (inst_app instance))\<rparr>)
                       routes) of
             (app', thrown) \<Rightarrow>
               dx\<lparr>instances :=
                    AList.update serverName
                      (instance\<lparr>inst_moduleLoad := newRoutes,
                                inst_lastUpdated := Some (date_now e),
                                inst_app := app'\<rparr>)
                      (instances dx),
                  dynreload :=
                    (case thrown of
                       None \<Rightarrow>
                         console_log (dynreload dx)
                           (''Updated routes for server '' @ serverName)
                     | Some err \<Rightarrow>
                         console_error (dynreload dx)
                           (''Error updating routes for server '' @ serverName) (Some err))\<rparr>))"

definition setupHotReloading ::
  "nat \<Rightarrow> env \<Rightarrow> dynexpress \<Rightarrow> string \<Rightarrow> path \<Rightarrow> jsval \<Rightarrow> dynexpress option" where
  "setupHotReloading fuel e dx serverName routerFile launch =
     (case watchFile fuel e
             (setRouteUpdateCallback (dynreload dx) routerFile
                (RouteUpdateCallback serverName launch))
             routerFile of
        None \<Rightarrow> None
      | Some dr \<Rightarrow> Some (dx\<lparr>dynreload := dr\<rparr>))"

text \<open>
  The loop of the change handler over the modules to reload, in the order the handler
  sorted them: each is reloaded, and after a successful reload the callback registered for
  its path, if any, is called with the new module. The second component lists the paths
  whose callback was called.
\<close>

fun reload_loop :: "env \<Rightarrow> dynexpress \<Rightarrow> path list \<Rightarrow> dynexpress \<times> path list" where
  "reload_loop e dx [] = (dx, [])"
| "reload_loop e dx (modulePath # sortedModules) =
     (case reloadModule e (dynreload dx) modulePath of
        (dr, ReloadFailure err) \<Rightarrow> reload_loop e (dx\<lparr>dynreload := dr\<rparr>) sortedModules
      | (dr, ReloadSuccess m) \<Rightarrow>
          (case map_of (routeUpdateCallbacks dr) modulePath of
             None \<Rightarrow> reload_loop e (dx\<lparr>dynreload := dr\<rparr>) sortedModules
           | Some (RouteUpdateCallback serverName launch) \<Rightarrow>
               (case reload_loop e
                       (routeUpdateCallback e (dx\<lparr>dynreload := dr\<rparr>) serverName launch m)
                       sortedModules of
                  (dx', called) \<Rightarrow> (dx', modulePath # called))))"

subsection \<open>\<^verbatim>\<open>newServer\<close>\<close>

fun string_of_nat :: "nat \<Rightarrow> string" where
  "string_of_nat n =
     (if n < 10 then [''0123456789'' ! n]
      else string_of_nat (n div 10) @ [''0123456789'' ! (n mod 10)])"

declare string_of_nat.simps [simp del]

definition url_of :: "int \<Rightarrow> string" where
  "url_of port =
     ''http://localhost:''
     @ (if port < 0 then CHR ''-'' # string_of_nat (nat (- port)) else string_of_nat (nat port))
     @ ''/''"

text \<open>
  The part of the \<^verbatim>\<open>try\<close> block that loads the routes: the route list to bind and the
  module to store, or the error thrown.
\<close>

definition load_routes ::
  "env \<Rightarrow> dynexpress \<Rightarrow> validated \<Rightarrow> jsval \<Rightarrow> dynexpress \<times> (js_error + jsval \<times> jsval)" where
  "load_routes e dx v launch =
     (case v of
        ArrayRoutes value \<Rightarrow> (dx, Inr (value, JUndefined))
      | FileRoutes value \<Rightarrow>
          (case preload e (dynreload dx) value of
             (dr, Inl err) \<Rightarrow> (dx\<lparr>dynreload := dr\<rparr>, Inl err)
           | (dr, Inr moduleLoad) \<Rightarrow>
               (case launch of
                  JStr l \<Rightarrow>
                    if l \<noteq> [] then
                      (if \<not> truthy (get_member e moduleLoad l)
                         then (dx\<lparr>dynreload := dr\<rparr>, Inl (Error (MsgPropertyNotFound l)))
                       else (dx\<lparr>dynreload := dr\<rparr>, Inr (get_member e moduleLoad l, moduleLoad)))
                    else (dx\<lparr>dynreload := dr\<rparr>, Inr (moduleLoad, moduleLoad))
                | _ \<Rightarrow> (dx\<lparr>dynreload := dr\<rparr>, Inr (moduleLoad, moduleLoad)))))"

text \<open>
  The \<^verbatim>\<open>try\<close> block. \<open>None\<close> only when \<^verbatim>\<open>watchFile\<close> needs more than \<open>fuel\<close> nested calls.
\<close>

definition newServer_try ::
  "nat \<Rightarrow> env \<Rightarrow> dynexpress \<Rightarrow> string \<Rightarrow> server_config \<Rightarrow>
     (dynexpress \<times> (js_error + string)) option" where
  "newServer_try fuel e dx name cfg =
     (case validateRouters e (cfg_routers cfg) of
        Inl err \<Rightarrow> Some (dx, Inl err)
      | Inr v \<Rightarrow>
          (case load_routes e dx v (default_to (JBool False) (cfg_launch cfg)) of
             (dx1, Inl err) \<Rightarrow> Some (dx1, Inl err)
           | (dx1, Inr (appRoutes, moduleLoad)) \<Rightarrow>
               (case findAvailablePort e (cfg_port cfg) 10 of
                  (probed, Inl err) \<Rightarrow> Some (dx1, Inl err)
                | (probed, Inr availablePort) \<Rightarrow>
                    (case setupRoutes e
                            (setupMiddleware e dx1 \<lparr>stack = [], settings = []\<rparr>
                               (default_to JNull (cfg_pathViews cfg))
                               (default_to JNull (cfg_pathPublic cfg)))
                            appRoutes of
                       (app, Some err) \<Rightarrow> Some (dx1, Inl err)
                     | (app, None) \<Rightarrow>
                         (case startServer e availablePort of
                            Inl err \<Rightarrow> Some (dx1, Inl err)
                          | Inr server \<Rightarrow>
                              (let dx2 = dx1\<lparr>instances :=
                                     AList.update name
                                       \<lparr>inst_app = app,
                                        inst_server = server,
                                        inst_routers = cfg_routers cfg,
                                        inst_pathViews = default_to JNull (cfg_pathViews cfg),
                                        inst_pathPublic = default_to JNull (cfg_pathPublic cfg),
                                        inst_port = availablePort,
                                        inst_watchFile = default_to (JBool False) (cfg_watchFile cfg),
                                        inst_launch = default_to (JBool False) (cfg_launch cfg),
                                        inst_moduleLoad = moduleLoad,
                                        inst_startTime = date_now e,
                                        inst_lastUpdated = None\<rparr>
                                       (instances dx1),
                                     listening := listening dx1 @ [availablePort]\<rparr>
                               in (case v of
                                     FileRoutes value \<Rightarrow>
                                       if truthy (default_to (JBool False) (cfg_watchFile cfg)) then
                                         (case setupHotReloading fuel e dx2 name value
                                                 (default_to (JBool False) (cfg_launch cfg)) of
                                            None \<Rightarrow> None
                                          | Some dx3 \<Rightarrow> Some (dx3, Inr (url_of availablePort)))
                                       else Some (dx2, Inr (url_of availablePort))
                                   | ArrayRoutes value \<Rightarrow>
                                       Some (dx2, Inr (url_of availablePort)))))))))"

text \<open>
  \<^verbatim>\<open>newServer\<close>: the name check, the early return for a name that is already registered,
  then the \<^verbatim>\<open>try\<close> block, whose \<^verbatim>\<open>catch\<close> logs and throws a plain \<^verbatim>\<open>Error\<close> with the message
  of what it caught.
\<close>

definition newServer ::
  "nat \<Rightarrow> env \<Rightarrow> dynexpress \<Rightarrow> server_config \<Rightarrow> (dynexpress \<times> (js_error + string)) option" where
  "newServer fuel e dx cfg =
     (case cfg_name cfg of
        JStr name \<Rightarrow>
          if name = [] then Some (dx, Inl (Error MsgServerNameRequired))
          else
            (case map_of (instances dx) name of
               Some instance \<Rightarrow> Some (dx, Inr (url_of (inst_port instance)))
             | None \<Rightarrow>
                 (case newServer_try fuel e dx name cfg of
                    None \<Rightarrow> None
                  | Some (dx', Inr url) \<Rightarrow> Some (dx', Inr url)
                  | Some (dx', Inl err) \<Rightarrow>
                      Some (dx'\<lparr>dynreload :=
                                 console_error (dynreload dx')
                                   (''Error creating server '' @ name) (Some err)\<rparr>,
                            Inl (Error (error_message err)))))
      | _ \<Rightarrow> Some (dx, Inl (Error MsgServerNameRequired)))"

subsection \<open>\<^verbatim>\<open>stopServer\<close> and \<^verbatim>\<open>cleanup\<close>\<close>

definition stopServer :: "env \<Rightarrow> dynexpress \<Rightarrow> string \<Rightarrow> dynexpress \<times> (js_error + bool)" where
  "stopServer e dx serverName =
     (case map_of (instances dx) serverName of
        None \<Rightarrow> (dx, Inl (Error (MsgServerNotFound serverName)))
      | Some instance \<Rightarrow>
          (let dx1 =
                 (case inst_routers instance of
                    JStr routerFile \<Rightarrow>
                      if truthy (inst_watchFile instance)
                        then dx\<lparr>dynreload := stopWatching (dynreload dx) routerFile\<rparr>
                      else dx
                  | _ \<Rightarrow> dx)
           in (case inst_server instance of
                 HttpServer p \<Rightarrow>
                   (case server_close e p of
                      Some err \<Rightarrow> (dx1, Inl err)
                    | None \<Rightarrow>
                        (dx1\<lparr>instances := AList.delete serverName (instances dx1),
                              listening := remove1 p (listening dx1)\<rparr>,
                         Inr True)))))"

text \<open>
  \<^verbatim>\<open>promise.catch(handler)\<close> with a handler that logs and returns nothing: a rejection
  becomes a fulfilment with \<^verbatim>\<open>undefined\<close>.
\<close>

definition catch_and_log ::
  "string \<Rightarrow> dynexpress \<times> (js_error + bool) \<Rightarrow> dynexpress \<times> (js_error + bool option)" where
  "catch_and_log name r =
     (case r of
        (dx, Inl err) \<Rightarrow>
          (dx\<lparr>dynreload := console_error (dynreload dx) (''Error stopping server '' @ name) (Some err)\<rparr>,
           Inr None)
      | (dx, Inr b) \<Rightarrow> (dx, Inr (Some b)))"

text \<open>
  \<^verbatim>\<open>Array.from(keys).map(name => stopServer(name).catch(...))\<close>: one settled promise per
  name registered when \<^verbatim>\<open>cleanup\<close> starts. The stops touch disjoint registry entries, so
  they are run one after the other.
\<close>

fun stop_all ::
  "env \<Rightarrow> dynexpress \<Rightarrow> string list \<Rightarrow> dynexpress \<times> (js_error + bool option) list" where
  "stop_all e dx [] = (dx, [])"
| "stop_all e dx (name # names) =
     (case catch_and_log name (stopServer e dx name) of
        (dx1, r) \<Rightarrow> (case stop_all e dx1 names of (dx2, rs) \<Rightarrow> (dx2, r # rs)))"

text \<open>\<^verbatim>\<open>Promise.all\<close>: rejects with the first rejection, else fulfils.\<close>

fun promise_all :: "(js_error + 'a) list \<Rightarrow> js_error + 'a list" where
  "promise_all [] = Inr []"
| "promise_all (Inl err # rs) = Inl err"
| "promise_all (Inr x # rs) = (case promise_all rs of Inl err \<Rightarrow> Inl err | Inr xs \<Rightarrow> Inr (x # xs))"

definition cleanup :: "env \<Rightarrow> dynexpress \<Rightarrow> dynexpress \<times> js_error option" where
  "cleanup e dx =
     (case stop_all e dx (map fst (instances dx)) of
        (dx1, stopPromises) \<Rightarrow>
          (case promise_all stopPromises of
             Inl err \<Rightarrow> (dx1, Some err)
           | Inr settled \<Rightarrow> (dx1\<lparr>dynreload := dynreload_cleanup (dynreload dx1)\<rparr>, None)))"

subsection \<open>\<^verbatim>\<open>addRoute\<close>\<close>

text \<open>
  The three parameter checks come first, then the lookup of the instance. The method name
  is not checked against the application object before \<^verbatim>\<open>instance.app[methodLower]\<close> is
  called: when that property is not a function the call itself throws a TypeError. What
  the library's function throws propagates, the application object being left as the call
  left it; the console line is written only after a call that returned.
\<close>

definition addRoute :: "env \<Rightarrow> dynexpress \<Rightarrow> string \<Rightarrow> jsval \<Rightarrow> dynexpress \<times> js_error option" where
  "addRoute e dx serverName routeConfig =
     (if nullish routeConfig then (dx, Some (TypeError MsgCannotReadProperties))
      else if \<not> truthy (get_prop routeConfig ''method'')
              \<or> typeof (get_prop routeConfig ''method'') \<noteq> TString
        then (dx, Some (Error MsgRouteMethodRequired))
      else if \<not> truthy (get_prop routeConfig ''path'')
              \<or> typeof (get_prop routeConfig ''path'') \<noteq> TString
        then (dx, Some (Error MsgRoutePathRequired))
      else if \<not> truthy (get_prop routeConfig ''handler'')
              \<or> typeof (get_prop routeConfig ''handler'') \<noteq> TFunction
        then (dx, Some (Error MsgRouteHandlerRequired))
      else
        (case map_of (instances dx) serverName of
           None \<Rightarrow> (dx, Some (Error (MsgServerNotFound serverName)))
         | Some instance \<Rightarrow>
             (case get_prop routeConfig ''method'' of
                JStr method \<Rightarrow>
                  if \<not> app_has_function e (toLowerCase method)
                    then (dx, Some (TypeError (MsgNotAFunction ''instance.app[methodLower]'')))
                  else
                    (case app_call e (toLowerCase method) (get_prop routeConfig ''path'')
                            (middleware_arg (get_prop routeConfig ''middleware''))
                            (get_prop routeConfig ''handler'') (inst_app instance) of
                       (app', Some err) \<Rightarrow>
                         (dx\<lparr>instances :=
                               AList.update serverName (instance\<lparr>inst_app := app'\<rparr>)
                                 (instances dx)\<rparr>,
                          Some err)
                     | (app', None) \<Rightarrow>
                         (dx\<lparr>instances :=
                               AList.update serverName (instance\<lparr>inst_app := app'\<rparr>)
                                 (instances dx),
                             dynreload :=
                               console_log (dynreload dx) (''New route added to '' @ serverName)\<rparr>,
                          None))
              | v \<Rightarrow> (dx, Some (TypeError (MsgNotAFunction ''method.toLowerCase''))))))"

section \<open>Notions used in the statements\<close>


text \<open>
  What \<^verbatim>\<open>#validateRouters\<close> and \<^verbatim>\<open>#setupRoutes\<close> together let through: the descriptor is an
  object, the method is a non-empty string whose lower-case form names a function of the
  application object, the path is a non-empty string, and the handler is a function.
\<close>

definition descriptor_accepted :: "env \<Rightarrow> jsval \<Rightarrow> bool" where
  "descriptor_accepted e route =
     (route_shape_ok route
      \<and> (case get_prop route ''method'' of
            JStr m \<Rightarrow> m \<noteq> [] \<and> app_has_function e (toLowerCase m)
          | _ \<Rightarrow> False)
      \<and> (case get_prop route ''path'' of JStr p \<Rightarrow> p \<noteq> [] | _ \<Rightarrow> False))"

text \<open>
  The route layer of a descriptor, and the descriptors for which the library's call binds
  it: whatever the application object, the call appends that layer and throws nothing.
\<close>

fun layer_of :: "jsval \<Rightarrow> layer" where
  "layer_of route =
     RouteLayer
       (case get_prop route ''method'' of JStr m \<Rightarrow> toLowerCase m | _ \<Rightarrow> [])
       (get_prop route ''path'')
       (middleware_arg (get_prop route ''middleware''))
       (get_prop route ''handler'')"

definition library_binds :: "env \<Rightarrow> jsval \<Rightarrow> bool" where
  "library_binds e route =
     (\<forall>app. app_call e (case get_prop route ''method'' of JStr m \<Rightarrow> toLowerCase m | _ \<Rightarrow> [])
              (get_prop route ''path'') (middleware_arg (get_prop route ''middleware''))
              (get_prop route ''handler'') app
        = (app\<lparr>stack := stack app @ [layer_of route]\<rparr>, None))"

text \<open>
  The layers from which \<^verbatim>\<open>getInstance\<close> reports the routes of an instance: those of its
  router stack that have a route, in order.
\<close>

definition instance_routes :: "dynexpress \<Rightarrow> string \<Rightarrow> layer list option" where
  "instance_routes dx name =
     (case map_of (instances dx) name of
        None \<Rightarrow> None
      | Some instance \<Rightarrow> Some (filter has_route (stack (inst_app instance))))"

text \<open>What the three parameter checks of \<^verbatim>\<open>addRoute\<close> let through.\<close>

definition params_ok :: "jsval \<Rightarrow> bool" where
  "params_ok routeConfig =
     (truthy (get_prop routeConfig ''method'') \<and> typeof (get_prop routeConfig ''method'') = TString
      \<and> truthy (get_prop routeConfig ''path'') \<and> typeof (get_prop routeConfig ''path'') = TString
      \<and> truthy (get_prop routeConfig ''handler'')
      \<and> typeof (get_prop routeConfig ''handler'') = TFunction)"

text \<open>
  \<open>close_fails\<close>: \<^verbatim>\<open>server.close\<close> of the instance reports an error. \<open>watch_consistent\<close>: the
  open watchers are exactly those stored in \<^verbatim>\<open>watchedFiles\<close>, one per watched path, which
  is how \<^verbatim>\<open>watchFile\<close> and \<^verbatim>\<open>stopWatching\<close> keep them.
\<close>

definition close_fails :: "env \<Rightarrow> server_instance \<Rightarrow> bool" where
  "close_fails e inst = (case inst_server inst of HttpServer p \<Rightarrow> server_close e p \<noteq> None)"

definition watch_consistent :: "dynreload \<Rightarrow> bool" where
  "watch_consistent st =
     (distinct (map fst (watchedFiles st))
      \<and> list_all (\<lambda>(p, w). w = FSWatcher p) (watchedFiles st)
      \<and> subscriptions st = map fst (watchedFiles st))"

section \<open>A concrete run\<close>

text \<open>
  One route file \<^verbatim>\<open>/srv/routes.mjs\<close> whose default export is a list with one route; ports
  3000 and 3001 are taken; the application object registers routes under five verbs,
  except that it throws on the path \<^verbatim>\<open>/a++\<close>, which it cannot compile, and mounts middleware
  with \<^verbatim>\<open>use\<close>; no property read of the run reaches an inherited member; the manager is new
  and, as \<^verbatim>\<open>DynExpress\<close> constructs its engine, silent with depth 3.
\<close>

definition demo_routes :: jsval where
  "demo_routes =
     JArr [JObj [(''method'', JStr ''GET''), (''path'', JStr ''/''), (''handler'', JFun 1)]]"

definition demo_env :: env where
  "demo_env =
     \<lparr>existsSync = (\<lambda>p. p = ''/srv/routes.mjs''),
      import_module = (\<lambda>p. if p = ''/srv/routes.mjs'' then Inr (JObj [(''default'', demo_routes)])
                            else Inl (Error (MsgRuntime 1))),
      statSync = (\<lambda>p. if p = ''/srv/routes.mjs'' then Inr 1700 else Inl (Error (MsgRuntime 2))),
      extractDependencies = (\<lambda>p. []),
      date_now = 1000,
      fs_watch = (\<lambda>p. None),
      port_probe = (\<lambda>p. p \<noteq> 3000 \<and> p \<noteq> 3001),
      app_has_function =
        (\<lambda>m. m \<in> set [''get'', ''post'', ''put'', ''delete'', ''patch'', ''use'']),
      app_call =
        (\<lambda>name p mw h app.
           if name \<in> set [''get'', ''post'', ''put'', ''delete'', ''patch'']
             then (if p = JStr ''/a++'' then (app, Some (Error (MsgRuntime 3)))
                   else (app\<lparr>stack := stack app @ [RouteLayer name p mw h]\<rparr>, None))
           else if name = ''use''
             then (app\<lparr>stack := stack app @ [MiddlewareLayer ''use'']\<rparr>, None)
           else (app, Some (TypeError (MsgNotAFunction name)))),
      app_listen = (\<lambda>p. None),
      server_close = (\<lambda>p. None),
      builtin_member = (\<lambda>v k. JUndefined),
      to_string = (\<lambda>v. Inr ''[object Object]'')\<rparr>"

definition demo_dynreload :: dynreload where
  "demo_dynreload =
     \<lparr>silent = True, cache = [], watchedFiles = [], routeUpdateCallbacks = [],
      lastValidModules = [], dependencyGraph = [], maxDepth = 3, console = [],
      subscriptions = []\<rparr>"

definition demo_dynexpress :: dynexpress where
  "demo_dynexpress =
     \<lparr>instances = [], dynreload = demo_dynreload, defaultViewsPath = ''/srv/bin/views'',
      defaultPublicPath = ''/srv/bin/public'', listening = []\<rparr>"

text \<open>
  Three requests: an instance \<^verbatim>\<open>api\<close> from an inline list; the same with a second route
  whose method the application object lacks; an instance \<^verbatim>\<open>web\<close> from the route file with
  the named export \<^verbatim>\<open>apiRoutes\<close>, which the file does not have.
\<close>

definition demo_config :: server_config where
  "demo_config =
     \<lparr>cfg_name = JStr ''api'', cfg_routers = demo_routes, cfg_port = JNum 3000,
      cfg_pathViews = JUndefined, cfg_pathPublic = JUndefined, cfg_watchFile = JUndefined,
      cfg_launch = JUndefined\<rparr>"


definition demo_file_config :: server_config where
  "demo_file_config =
     \<lparr>cfg_name = JStr ''web'', cfg_routers = JStr ''/srv/routes.mjs'', cfg_port = JNum 3000,
      cfg_pathViews = JUndefined, cfg_pathPublic = JUndefined, cfg_watchFile = JBool True,
      cfg_launch = JStr ''apiRoutes''\<rparr>"

text \<open>
  The engine after \<^verbatim>\<open>preload\<close> of the route file; the same after
  \<^verbatim>\<open>setRouteUpdateCallback\<close> for that file, which is not watched.
\<close>

definition demo_module_info :: module_info where
  "demo_module_info =
     \<lparr>module = demo_routes, lastModified = 1700, info_filePath = ''/srv/routes.mjs''\<rparr>"

definition demo_loaded :: dynreload where
  "demo_loaded =
     demo_dynreload\<lparr>cache := [(''/srv/routes.mjs'', demo_module_info)],
                    lastValidModules := [(''/srv/routes.mjs'', demo_module_info)],
                    dependencyGraph := [(''/srv/routes.mjs'', [])]\<rparr>"

definition demo_unwatched :: dynreload where
  "demo_unwatched =
     setRouteUpdateCallback demo_loaded ''/srv/routes.mjs'' (RouteUpdateCallback ''api'' (JBool False))"

text \<open>
  Two later states of the route file: its default export is a list with a route that has
  no handler; it does not parse. And collaborators for which closing a server fails.
\<close>

definition demo_invalid_routes :: jsval where
  "demo_invalid_routes = JArr [JObj [(''method'', JStr ''GET''), (''path'', JStr ''/'')]]"

definition demo_env_invalid :: env where
  "demo_env_invalid =
     demo_env\<lparr>import_module := (\<lambda>p. Inr (JObj [(''default'', demo_invalid_routes)])),
              statSync := (\<lambda>p. Inr 1800)\<rparr>"

definition demo_env_syntax_error :: env where
  "demo_env_syntax_error = demo_env\<lparr>import_module := (\<lambda>p. Inl (Error (MsgRuntime 7)))\<rparr>"

definition demo_env_close_fails :: env where
  "demo_env_close_fails = demo_env\<lparr>server_close := (\<lambda>p. Some (Error (MsgRuntime 9)))\<rparr>"

text \<open>
  The manager after \<^verbatim>\<open>newServer\<close> created the instance \<^verbatim>\<open>api\<close> from the route file with
  hot reloading and the launch selector \<^verbatim>\<open>apiRoutes\<close>, at a time when the file had that
  named export and no default export; and three descriptors for \<^verbatim>\<open>addRoute\<close>.
\<close>

definition demo_env_named :: env where
  "demo_env_named =
     demo_env\<lparr>import_module := (\<lambda>p. Inr (JObj [(''apiRoutes'', demo_routes)]))\<rparr>"

definition demo_api_config :: server_config where
  "demo_api_config =
     \<lparr>cfg_name = JStr ''api'', cfg_routers = JStr ''/srv/routes.mjs'', cfg_port = JNum 3000,
      cfg_pathViews = JUndefined, cfg_pathPublic = JUndefined, cfg_watchFile = JBool True,
      cfg_launch = JStr ''apiRoutes''\<rparr>"

definition demo_instance :: server_instance where
  "demo_instance =
     \<lparr>inst_app =
        \<lparr>stack = [MiddlewareLayer ''urlencoded'', MiddlewareLayer ''json'',
                  MiddlewareLayer ''security headers'',
                  RouteLayer ''get'' (JStr ''/'') None (JFun 1)],
         settings = [(''view engine'', JStr ''ejs''), (''views'', JStr ''/srv/bin/views'')]\<rparr>,
      inst_server = HttpServer 3002,
      inst_routers = JStr ''/srv/routes.mjs'',
      inst_pathViews = JNull,
      inst_pathPublic = JNull,
      inst_port = 3002,
      inst_watchFile = JBool True,
      inst_launch = JStr ''apiRoutes'',
      inst_moduleLoad = JObj [(''apiRoutes'', demo_routes)],
      inst_startTime = 1000,
      inst_lastUpdated = None\<rparr>"

definition demo_running :: dynexpress where
  "demo_running =
     \<lparr>instances = [(''api'', demo_instance)],
      dynreload =
        \<lparr>silent = True,
         cache = [(''/srv/routes.mjs'',
                   \<lparr>module = JObj [(''apiRoutes'', demo_routes)], lastModified = 1700,
                    info_filePath = ''/srv/routes.mjs''\<rparr>)],
         watchedFiles = [(''/srv/routes.mjs'', FSWatcher ''/srv/routes.mjs'')],
         routeUpdateCallbacks =
           [(''/srv/routes.mjs'', RouteUpdateCallback ''api'' (JStr ''apiRoutes''))],
         lastValidModules = [(''/srv/routes.mjs'',
                   \<lparr>module = JObj [(''apiRoutes'', demo_routes)], lastModified = 1700,
                    info_filePath = ''/srv/routes.mjs''\<rparr>)],
         dependencyGraph = [(''/srv/routes.mjs'', [])],
         maxDepth = 3, console = [], subscriptions = [''/srv/routes.mjs'']\<rparr>,
      defaultViewsPath = ''/srv/bin/views'',
      defaultPublicPath = ''/srv/bin/public'', listening = [3002]\<rparr>"

definition demo_unsupported_route :: jsval where
  "demo_unsupported_route =
     JObj [(''method'', JStr ''FLY''), (''path'', JStr ''/x''), (''handler'', JFun 2)]"

definition demo_post_route :: jsval where
  "demo_post_route =
     JObj [(''method'', JStr ''POST''), (''path'', JStr ''/data''), (''handler'', JFun 3)]"

definition demo_bad_path_route :: jsval where
  "demo_bad_path_route =
     JObj [(''method'', JStr ''POST''), (''path'', JStr ''/a++''), (''handler'', JFun 3)]"

text \<open>
  Collaborators for which the last port, 65535, is taken, and the request for an instance
  on that port.
\<close>

definition demo_env_last_port :: env where
  "demo_env_last_port = demo_env\<lparr>port_probe := (\<lambda>p. p \<noteq> 65535)\<rparr>"

definition demo_last_port_config :: server_config where
  "demo_last_port_config = demo_config\<lparr>cfg_port := JNum 65535\<rparr>"




text \<open>
  A later state of the route file: the export \<^verbatim>\<open>apiRoutes\<close> has been renamed \<^verbatim>\<open>routesV2\<close>, and
  there is still no default export. And the manager after the reload of that file.
\<close>

definition demo_renamed_module :: jsval where
  "demo_renamed_module = JObj [(''routesV2'', demo_routes)]"

definition demo_env_renamed :: env where
  "demo_env_renamed =
     demo_env\<lparr>import_module := (\<lambda>p. Inr demo_renamed_module), statSync := (\<lambda>p. Inr 1800)\<rparr>"

definition demo_after_rename :: dynexpress where
  "demo_after_rename =
     demo_running
       \<lparr>instances :=
          [(''api'',
            demo_instance
              \<lparr>inst_app :=
                 \<lparr>stack = [MiddlewareLayer ''urlencoded'', MiddlewareLayer ''json'',
                           MiddlewareLayer ''security headers''],
                  settings = [(''view engine'', JStr ''ejs''),
                              (''views'', JStr ''/srv/bin/views'')]\<rparr>,
               inst_moduleLoad := demo_renamed_module,
               inst_lastUpdated := Some 1000\<rparr>)],
        dynreload :=
          (dynreload demo_running)
            \<lparr>cache := [(''/srv/routes.mjs'',
                        \<lparr>module = demo_renamed_module, lastModified = 1800,
                         info_filePath = ''/srv/routes.mjs''\<rparr>)],
             lastValidModules := [(''/srv/routes.mjs'',
                        \<lparr>module = demo_renamed_module, lastModified = 1800,
                         info_filePath = ''/srv/routes.mjs''\<rparr>)]\<rparr>\<rparr>"

section \<open>The affected set\<close>

lemma set_set_add: "set (set_add s x) = insert x (set s)"
  by (auto simp: set_add_def)

lemma set_fold_set_add: "set (fold (\<lambda>m acc. set_add acc m) xs s) = set xs \<union> set s"
  by (induction xs arbitrary: s) (auto simp: set_set_add)

lemma affected_loop_mono:
  assumes "\<And>m r. recur m = Some r \<Longrightarrow> recur' m = Some r"
    and "affected_loop recur c es acc = Some r"
  shows "affected_loop recur' c es acc = Some r"
  using assms(2)
proof (induction es arbitrary: acc)
  case Nil
  then show ?case by simp
next
  case (Cons e es)
  obtain m deps where e: "e = (m, deps)" by (cases e)
  show ?case
  proof (cases "c \<in> set deps")
    case True
    with Cons.prems e obtain ind where ind: "recur m = Some ind"
      by (auto split: option.splits)
    then have "recur' m = Some ind" by (rule assms(1))
    with Cons ind e True show ?thesis by simp
  next
    case False
    with Cons e show ?thesis by simp
  qed
qed

lemma findAffectedModules_Suc:
  "findAffectedModules n g p = Some r \<Longrightarrow> findAffectedModules (Suc n) g p = Some r"
proof (induction n arbitrary: p r)
  case 0
  then show ?case by simp
next
  case (Suc n)
  from Suc.prems
  have "affected_loop (\<lambda>m. findAffectedModules n g m) p g [p] = Some r"
    by (simp only: findAffectedModules.simps(2))
  then have "affected_loop (\<lambda>m. findAffectedModules (Suc n) g m) p g [p] = Some r"
    by (rule affected_loop_mono[rotated]) (rule Suc.IH)
  then show ?case
    unfolding findAffectedModules.simps(2)[of "Suc n" g p] .
qed

lemma findAffectedModules_le:
  "findAffectedModules n g p = Some r \<Longrightarrow> n \<le> k \<Longrightarrow> findAffectedModules k g p = Some r"
proof (induction k)
  case 0
  then show ?case by simp
next
  case (Suc k)
  show ?case
  proof (cases "n = Suc k")
    case True
    with Suc.prems show ?thesis by simp
  next
    case False
    with Suc.prems have "n \<le> k" by simp
    with Suc have "findAffectedModules k g p = Some r" by simp
    then show ?thesis by (rule findAffectedModules_Suc)
  qed
qed

lemma affected_loop_total:
  assumes "\<forall>(m, deps) \<in> set es. c \<in> set deps \<longrightarrow> recur m = Some (R m)"
  shows "\<exists>r. affected_loop recur c es acc = Some r \<and>
           set r = set acc \<union> (\<Union>(m, deps) \<in> set es. if c \<in> set deps then insert m (set (R m)) else {})"
  using assms
proof (induction es arbitrary: acc)
  case Nil
  then show ?case by simp
next
  case (Cons e es)
  obtain m deps where e: "e = (m, deps)" by (cases e)
  have tl: "\<forall>(m, deps) \<in> set es. c \<in> set deps \<longrightarrow> recur m = Some (R m)"
    using Cons.prems by auto
  show ?case
  proof (cases "c \<in> set deps")
    case True
    then have rm: "recur m = Some (R m)" using Cons.prems e by auto
    from Cons.IH[OF tl, where acc = "fold (\<lambda>m acc. set_add acc m) (R m) (set_add acc m)"]
    obtain r where "affected_loop recur c es (fold (\<lambda>m acc. set_add acc m) (R m) (set_add acc m)) = Some r"
      and "set r = set (fold (\<lambda>m acc. set_add acc m) (R m) (set_add acc m)) \<union>
           (\<Union>(m, deps) \<in> set es. if c \<in> set deps then insert m (set (R m)) else {})"
      by blast
    with True rm e show ?thesis by (auto simp: set_fold_set_add set_set_add)
  next
    case False
    from Cons.IH[OF tl, where acc = acc] False e show ?thesis by auto
  qed
qed

lemma finite_dep_edges: "finite (dep_edges g)"
proof -
  have "dep_edges g \<subseteq> (\<Union>(m, deps) \<in> set g. (\<lambda>d. (m, d)) ` set deps)"
    by (auto simp: dep_edges_def)
  moreover have "finite (\<Union>(m, deps) \<in> set g. (\<lambda>d. (m, d)) ` set deps)"
    by auto
  ultimately show ?thesis by (rule finite_subset)
qed

lemma findAffected_closure:
  assumes "acyclic (dep_edges g)"
  shows "\<exists>n r. (\<forall>k\<ge>n. findAffectedModules k g p = Some r) \<and>
           set r = {m. (m, p) \<in> (dep_edges g)\<^sup>*}"
proof -
  let ?E = "dep_edges g"
  have "wf ?E" using finite_dep_edges assms by (rule finite_acyclic_wf)
  then show ?thesis
  proof (induction p rule: wf_induct_rule)
    case (less p)
    let ?preds = "{m. (m, p) \<in> ?E}"
    have fin: "finite ?preds"
    proof -
      have "?preds \<subseteq> fst ` ?E" by force
      then show ?thesis using finite_dep_edges[of g] by (meson finite_imageI finite_subset)
    qed
    have "\<forall>m\<in>?preds. \<exists>n r. (\<forall>k\<ge>n. findAffectedModules k g m = Some r) \<and>
             set r = {x. (x, m) \<in> ?E\<^sup>*}"
      using less by simp
    then obtain N R where NR:
      "\<And>m. m \<in> ?preds \<Longrightarrow> (\<forall>k\<ge>N m. findAffectedModules k g m = Some (R m)) \<and>
             set (R m) = {x. (x, m) \<in> ?E\<^sup>*}"
      by metis
    define B where "B = Max (N ` ?preds \<union> {0})"
    have B: "\<And>m. m \<in> ?preds \<Longrightarrow> N m \<le> B"
      unfolding B_def using fin by (intro Max_ge) auto
    have pre: "\<forall>(m, deps) \<in> set g. p \<in> set deps \<longrightarrow> findAffectedModules B g m = Some (R m)"
    proof (clarify)
      fix m deps assume "(m, deps) \<in> set g" "p \<in> set deps"
      then have "m \<in> ?preds" by (auto simp: dep_edges_def)
      with NR[of m] B[of m] show "findAffectedModules B g m = Some (R m)" by auto
    qed
    from affected_loop_total[OF pre, where acc = "[p]"]
    obtain r where r: "affected_loop (findAffectedModules B g) p g [p] = Some r"
      and sr: "set r = set [p] \<union> (\<Union>(m, deps) \<in> set g. if p \<in> set deps then insert m (set (R m)) else {})"
      by auto
    have all: "\<forall>k\<ge>Suc B. findAffectedModules k g p = Some r"
    proof (intro allI impI)
      fix k assume "Suc B \<le> k"
      have "findAffectedModules (Suc B) g p = Some r" using r by simp
      then show "findAffectedModules k g p = Some r"
        using \<open>Suc B \<le> k\<close> by (rule findAffectedModules_le)
    qed
    have "set r = {m. (m, p) \<in> ?E\<^sup>*}"
    proof (intro set_eqI iffI)
      fix x assume "x \<in> set r"
      with sr consider "x = p" | m deps where "(m, deps) \<in> set g" "p \<in> set deps" "x = m \<or> x \<in> set (R m)"
        by (auto split: if_splits)
      then show "x \<in> {m. (m, p) \<in> ?E\<^sup>*}"
      proof cases
        case 1 then show ?thesis by simp
      next
        case 2
        then have mp: "(m, p) \<in> ?E" by (auto simp: dep_edges_def)
        then have "set (R m) = {x. (x, m) \<in> ?E\<^sup>*}" using NR[of m] by simp
        with 2 mp show ?thesis by (auto intro: rtrancl_into_rtrancl)
      qed
    next
      fix x assume "x \<in> {m. (m, p) \<in> ?E\<^sup>*}"
      then have "(x, p) \<in> ?E\<^sup>*" by simp
      then show "x \<in> set r"
      proof (cases rule: rtranclE)
        case base
        then show ?thesis using sr by simp
      next
        case (step m)
        from step(2) obtain deps where md: "(m, deps) \<in> set g" "p \<in> set deps"
          by (auto simp: dep_edges_def)
        from step(2) have "set (R m) = {x. (x, m) \<in> ?E\<^sup>*}" using NR[of m] by simp
        with step(1) have "x \<in> set (R m)" by simp
        with md sr show ?thesis by force
      qed
    qed
    with all show ?case by blast
  qed
qed

lemma chain_changed_last:
  assumes "a \<noteq> b" "b \<noteq> c" "a \<noteq> c"
  shows "findAffectedModules 3 [(a, [b]), (b, [c]), (c, [])] c = Some [c, b, a]"
  using assms by (simp add: numeral_3_eq_3 set_add_def)

lemma chain_changed_first:
  assumes "a \<noteq> b" "b \<noteq> c" "a \<noteq> c"
  shows "findAffectedModules 1 [(a, [b]), (b, [c]), (c, [])] a = Some [a]"
  using assms by (simp add: set_add_def)

text \<open>
  Claim C3. On an acyclic dependency graph \<^verbatim>\<open>#findAffectedModules(p)\<close> returns, with any
  call stack deep enough, and its result holds exactly \<open>p\<close> and the tracked paths from which
  \<open>p\<close> is reached through one or more dependency edges. For the chain where \<open>a\<close> depends on
  \<open>b\<close> and \<open>b\<close> on \<open>c\<close>, the result for \<open>c\<close> is \<open>{a, b, c}\<close> and the result for \<open>a\<close> is \<open>{a}\<close>.
\<close>

theorem findAffected_acyclic:
  assumes "acyclic (dep_edges g)"
  shows "(\<exists>n r. (\<forall>k\<ge>n. findAffectedModules k g p = Some r) \<and>
            set r = insert p {m \<in> fst ` set g. (m, p) \<in> (dep_edges g)\<^sup>+})
         \<and> (a \<noteq> b \<and> b \<noteq> c \<and> a \<noteq> c \<longrightarrow>
              (\<forall>k\<ge>3. findAffectedModules k [(a, [b]), (b, [c]), (c, [])] c = Some [c, b, a])
              \<and> (\<forall>k\<ge>1. findAffectedModules k [(a, [b]), (b, [c]), (c, [])] a = Some [a]))"
proof (intro conjI impI)
  have "{m. (m, p) \<in> (dep_edges g)\<^sup>*} = insert p {m \<in> fst ` set g. (m, p) \<in> (dep_edges g)\<^sup>+}"
  proof -
    have "\<And>m. (m, p) \<in> (dep_edges g)\<^sup>+ \<Longrightarrow> m \<in> fst ` set g"
      by (erule converse_tranclE) (force simp: dep_edges_def)+
    then show ?thesis by (auto simp: rtrancl_eq_or_trancl)
  qed
  with findAffected_closure[OF assms, of p]
  show "\<exists>n r. (\<forall>k\<ge>n. findAffectedModules k g p = Some r) \<and>
            set r = insert p {m \<in> fst ` set g. (m, p) \<in> (dep_edges g)\<^sup>+}"
    by simp
next
  assume d: "a \<noteq> b \<and> b \<noteq> c \<and> a \<noteq> c"
  show "\<forall>k\<ge>3. findAffectedModules k [(a, [b]), (b, [c]), (c, [])] c = Some [c, b, a]"
    using chain_changed_last[of a b c] d findAffectedModules_le by blast
  show "\<forall>k\<ge>1. findAffectedModules k [(a, [b]), (b, [c]), (c, [])] a = Some [a]"
    using chain_changed_first[of a b c] d findAffectedModules_le by blast
qed

lemma chain_edges:
  "dep_edges [(''/A.mjs'', [''/B.mjs'']), (''/B.mjs'', [''/C.mjs'']), (''/C.mjs'', [])]
     = {(''/A.mjs'', ''/B.mjs''), (''/B.mjs'', ''/C.mjs'')}"
  by (auto simp: dep_edges_def)

lemma chain_acyclic:
  "acyclic (dep_edges [(''/A.mjs'', [''/B.mjs'']), (''/B.mjs'', [''/C.mjs'']), (''/C.mjs'', [])])"
  unfolding chain_edges
  by (rule acyclicI_order[where f = "\<lambda>p. if p = ''/A.mjs'' then 2 else if p = ''/B.mjs'' then 1 else (0::nat)"])
     auto

theorem findAffected_acyclic_witness:
  "acyclic (dep_edges [(''/A.mjs'', [''/B.mjs'']), (''/B.mjs'', [''/C.mjs'']), (''/C.mjs'', [])])
   \<and> findAffectedModules 3 [(''/A.mjs'', [''/B.mjs'']), (''/B.mjs'', [''/C.mjs'']), (''/C.mjs'', [])] ''/C.mjs''
       = Some [''/C.mjs'', ''/B.mjs'', ''/A.mjs'']
   \<and> findAffectedModules 1 [(''/A.mjs'', [''/B.mjs'']), (''/B.mjs'', [''/C.mjs'']), (''/C.mjs'', [])] ''/A.mjs''
       = Some [''/A.mjs'']"
  using chain_acyclic
    findAffected_acyclic[OF chain_acyclic, of "''/C.mjs''" "''/A.mjs''" "''/B.mjs''" "''/C.mjs''"]
  by simp

lemma cycle_both:
  "a \<noteq> b \<Longrightarrow> findAffectedModules n [(a, [b]), (b, [a])] a = None
     \<and> findAffectedModules n [(a, [b]), (b, [a])] b = None"
  by (induction n) simp_all

text \<open>
  Claim C4. On the graph where \<^verbatim>\<open>/A.mjs\<close> depends on \<^verbatim>\<open>/B.mjs\<close> and \<^verbatim>\<open>/B.mjs\<close> on
  \<^verbatim>\<open>/A.mjs\<close>, \<^verbatim>\<open>#findAffectedModules("/A.mjs")\<close> returns no set, however deep the call
  stack: each call for one path calls the method for the other.
\<close>

theorem findAffected_cycle_overflows:
  "\<forall>n. findAffectedModules n [(''/A.mjs'', [''/B.mjs'']), (''/B.mjs'', [''/A.mjs''])] ''/A.mjs'' = None"
  using cycle_both[of "''/A.mjs''" "''/B.mjs''"] by simp

theorem findAffected_cycle_overflows_witness:
  "findAffectedModules 8 [(''/A.mjs'', [''/B.mjs'']), (''/B.mjs'', [''/A.mjs''])] ''/A.mjs'' = None"
  using findAffected_cycle_overflows by blast

section \<open>Port negotiation\<close>

lemma probe_from_spec:
  "probe_from e P k = (ps, r) \<Longrightarrow> 0 \<le> P \<Longrightarrow> P \<le> 65536 \<Longrightarrow>
     (case r of
        Inr (Some q) \<Rightarrow> ps = [P..q] \<and> P \<le> q \<and> q < P + int k \<and> q \<le> 65535 \<and> port_probe e q
                  \<and> (\<forall>q'. P \<le> q' \<and> q' < q \<longrightarrow> \<not> port_probe e q')
      | Inr None \<Rightarrow> ps = [P..P + int k - 1] \<and> P + int k \<le> 65536
                  \<and> (\<forall>q'. P \<le> q' \<and> q' < P + int k \<longrightarrow> \<not> port_probe e q')
      | Inl err \<Rightarrow> ps = [P..65536] \<and> 65536 < P + int k \<and> err = RangeError (MsgBadPort 65536)
                  \<and> (\<forall>q'. P \<le> q' \<and> q' \<le> 65535 \<longrightarrow> \<not> port_probe e q'))"
proof (induction k arbitrary: P ps r)
  case 0
  then show ?case by auto
next
  case (Suc k)
  show ?case
  proof (cases "65535 < P")
    case True
    with Suc.prems(3) have P: "P = 65536" by simp
    with Suc.prems(1) have "ps = [65536]" "r = Inl (RangeError (MsgBadPort 65536))"
      by (auto simp: isPortAvailable_def)
    with P show ?thesis by auto
  next
    case inrange: False
    with Suc.prems(2) have av: "isPortAvailable e P = Inr (port_probe e P)"
      by (simp add: isPortAvailable_def)
    show ?thesis
    proof (cases "port_probe e P")
      case True
      with Suc.prems(1) av inrange show ?thesis by auto
    next
      case False
      obtain ps' r' where rec: "probe_from e (P + 1) k = (ps', r')"
        by (cases "probe_from e (P + 1) k")
      with Suc.prems(1) av False have ps: "ps = P # ps'" and r: "r = r'" by auto
      from Suc.prems(2) have nonneg: "0 \<le> P + 1" by simp
      from inrange have le: "P + 1 \<le> 65536" by simp
      note ih = Suc.IH[OF rec nonneg le]
      show ?thesis
      proof (cases r')
        case (Inl err)
        with ih have a: "ps' = [P + 1..65536]" and b: "65536 < P + 1 + int k"
          and c: "err = RangeError (MsgBadPort 65536)"
          and d: "\<forall>q'. P + 1 \<le> q' \<and> q' \<le> 65535 \<longrightarrow> \<not> port_probe e q'" by auto
        have "ps = [P..65536]" using ps a inrange by (simp add: upto_rec1[of P])
        moreover have "\<forall>q'. P \<le> q' \<and> q' \<le> 65535 \<longrightarrow> \<not> port_probe e q'"
        proof (intro allI impI)
          fix q' assume "P \<le> q' \<and> q' \<le> 65535"
          then show "\<not> port_probe e q'" using d False by (cases "q' = P") auto
        qed
        ultimately show ?thesis using r Inl b c by simp
      next
        case (Inr o')
        show ?thesis
        proof (cases o')
          case None
          with ih Inr have a: "ps' = [P + 1..P + 1 + int k - 1]" and b: "P + 1 + int k \<le> 65536"
            and c: "\<forall>q'. P + 1 \<le> q' \<and> q' < P + 1 + int k \<longrightarrow> \<not> port_probe e q'" by auto
          have "ps = [P..P + int (Suc k) - 1]"
            using ps a by (simp add: upto_rec1[of P])
          moreover have "\<forall>q'. P \<le> q' \<and> q' < P + int (Suc k) \<longrightarrow> \<not> port_probe e q'"
          proof (intro allI impI)
            fix q' assume "P \<le> q' \<and> q' < P + int (Suc k)"
            then show "\<not> port_probe e q'" using c False by (cases "q' = P") auto
          qed
          ultimately show ?thesis using r Inr None b by simp
        next
          case (Some q)
          with ih Inr have a: "ps' = [P + 1..q]"
            and b: "P + 1 \<le> q" "q < P + 1 + int k" "q \<le> 65535" "port_probe e q"
            and c: "\<forall>q'. P + 1 \<le> q' \<and> q' < q \<longrightarrow> \<not> port_probe e q'" by auto
          have "ps = [P..q]" using ps a b by (simp add: upto_rec1[of P])
          moreover have "\<forall>q'. P \<le> q' \<and> q' < q \<longrightarrow> \<not> port_probe e q'"
          proof (intro allI impI)
            fix q' assume "P \<le> q' \<and> q' < q"
            then show "\<not> port_probe e q'" using c False by (cases "q' = P") auto
          qed
          ultimately show ?thesis using r Inr Some b by simp
        qed
      qed
    qed
  qed
qed

lemma findAvailablePort_invalid:
  "parseInt e startPort = Inr None
   \<or> (\<exists>P. parseInt e startPort = Inr (Some P) \<and> (P < 1024 \<or> 65535 < P))
   \<Longrightarrow> findAvailablePort e startPort k = ([], Inl (Error MsgPortRange))"
  by (auto simp: findAvailablePort_def)

lemma findAvailablePort_conversion_throws:
  "parseInt e startPort = Inl err \<Longrightarrow> findAvailablePort e startPort k = ([], Inl err)"
  by (simp add: findAvailablePort_def)

lemma findAvailablePort_free:
  assumes "parseInt e startPort = Inr (Some P)" "1024 \<le> P" "P \<le> 65535"
    and "\<exists>q. P \<le> q \<and> q < P + int k \<and> q \<le> 65535 \<and> port_probe e q"
  shows "\<exists>q. findAvailablePort e startPort k = ([P..q], Inr q)
           \<and> P \<le> q \<and> q < P + int k \<and> q \<le> 65535 \<and> port_probe e q
           \<and> (\<forall>q'. P \<le> q' \<and> q' < q \<longrightarrow> \<not> port_probe e q')"
proof -
  obtain ps r where pr: "probe_from e P k = (ps, r)" by (cases "probe_from e P k")
  have b: "0 \<le> P" "P \<le> 65536" using assms(2,3) by simp_all
  note spec = probe_from_spec[OF pr b]
  from spec assms(4) obtain q where "r = Inr (Some q)"
    by (cases r) (auto split: option.splits)
  with spec pr assms(1-3) show ?thesis
    by (auto simp: findAvailablePort_def)
qed

lemma findAvailablePort_exhausted:
  assumes "parseInt e startPort = Inr (Some P)" "1024 \<le> P" "P \<le> 65535"
    and "P + int k \<le> 65536"
    and "\<forall>q. P \<le> q \<and> q < P + int k \<longrightarrow> \<not> port_probe e q"
  shows "findAvailablePort e startPort k
           = ([P..P + int k - 1], Inl (Error (MsgNoAvailablePort k startPort)))"
proof -
  obtain ps r where pr: "probe_from e P k = (ps, r)" by (cases "probe_from e P k")
  have b: "0 \<le> P" "P \<le> 65536" using assms(2,3) by simp_all
  note spec = probe_from_spec[OF pr b]
  from spec assms(4,5) have "r = Inr None"
    by (cases r) (auto split: option.splits)
  with spec pr assms(1-3) show ?thesis
    by (auto simp: findAvailablePort_def)
qed

lemma findAvailablePort_past_range:
  assumes "parseInt e startPort = Inr (Some P)" "1024 \<le> P" "P \<le> 65535"
    and "65536 < P + int k"
    and "\<forall>q. P \<le> q \<and> q \<le> 65535 \<longrightarrow> \<not> port_probe e q"
  shows "findAvailablePort e startPort k = ([P..65536], Inl (RangeError (MsgBadPort 65536)))"
proof -
  obtain ps r where pr: "probe_from e P k = (ps, r)" by (cases "probe_from e P k")
  have b: "0 \<le> P" "P \<le> 65536" using assms(2,3) by simp_all
  note spec = probe_from_spec[OF pr b]
  from spec assms(4,5) obtain err where "r = Inl err"
    by (cases r) (auto split: option.splits)
  with spec pr assms(1-3) show ?thesis
    by (auto simp: findAvailablePort_def)
qed

lemma route_shape_ok_not_nullish: "route_shape_ok r \<Longrightarrow> \<not> nullish r"
  by (cases r) (auto simp: route_shape_ok_def)


lemma typeof_TFunction_truthy: "typeof v = TFunction \<Longrightarrow> truthy v"
  by (cases v) auto

lemma descriptor_accepted_props:
  assumes "descriptor_accepted e r"
  shows "\<exists>m p. get_prop r ''method'' = JStr m \<and> m \<noteq> [] \<and> app_has_function e (toLowerCase m)
           \<and> get_prop r ''path'' = JStr p \<and> p \<noteq> []
           \<and> truthy (get_prop r ''handler'') \<and> \<not> nullish r"
  using assms typeof_TFunction_truthy[of "get_prop r ''handler''"]
  by (auto simp: descriptor_accepted_def route_shape_ok_not_nullish route_shape_ok_def
      split: jsval.splits)

lemma setupRoutes_forEach_binds:
  "list_all (descriptor_accepted e) rs \<Longrightarrow> list_all (library_binds e) rs \<Longrightarrow>
     setupRoutes_forEach e app rs = (app\<lparr>stack := stack app @ map layer_of rs\<rparr>, None)"
proof (induction rs arbitrary: app)
  case Nil
  then show ?case by simp
next
  case (Cons r rs)
  from Cons.prems have v: "descriptor_accepted e r" and vs: "list_all (descriptor_accepted e) rs"
    and b: "library_binds e r" and bs: "list_all (library_binds e) rs" by auto
  from descriptor_accepted_props[OF v] obtain m p where
    m: "get_prop r ''method'' = JStr m" "m \<noteq> []" "app_has_function e (toLowerCase m)"
    and p: "get_prop r ''path'' = JStr p" "p \<noteq> []"
    and th: "truthy (get_prop r ''handler'')" and nn: "\<not> nullish r"
    by blast
  from b m(1) p(1) have call:
    "app_call e (toLowerCase m) (JStr p) (middleware_arg (get_prop r ''middleware''))
       (get_prop r ''handler'') app = (app\<lparr>stack := stack app @ [layer_of r]\<rparr>, None)"
    by (simp add: library_binds_def)
  show ?case
    using m p th nn call Cons.IH[OF vs bs, of "app\<lparr>stack := stack app @ [layer_of r]\<rparr>"]
    by (simp del: layer_of.simps)
qed


text \<open>\<^verbatim>\<open>newServer\<close> with a new name and an inline list that passes \<^verbatim>\<open>#validateRouters\<close>.\<close>

lemma newServer_inline:
  assumes "cfg_name cfg = JStr name" "name \<noteq> []" "map_of (instances dx) name = None"
    and "cfg_routers cfg = JArr rs" "list_all route_shape_ok rs"
  shows "newServer fuel e dx cfg =
     (case findAvailablePort e (cfg_port cfg) 10 of
        (probed, Inl err) \<Rightarrow>
          Some (dx\<lparr>dynreload := console_error (dynreload dx) (''Error creating server '' @ name) (Some err)\<rparr>,
                Inl (Error (error_message err)))
      | (probed, Inr availablePort) \<Rightarrow>
          (case setupRoutes_forEach e
                  (setupMiddleware e dx \<lparr>stack = [], settings = []\<rparr>
                     (default_to JNull (cfg_pathViews cfg)) (default_to JNull (cfg_pathPublic cfg)))
                  rs of
             (app, Some err) \<Rightarrow>
               Some (dx\<lparr>dynreload := console_error (dynreload dx) (''Error creating server '' @ name) (Some err)\<rparr>,
                     Inl (Error (error_message err)))
           | (app, None) \<Rightarrow>
               (case startServer e availablePort of
                  Inl err \<Rightarrow>
                    Some (dx\<lparr>dynreload := console_error (dynreload dx) (''Error creating server '' @ name) (Some err)\<rparr>,
                          Inl (Error (error_message err)))
                | Inr server \<Rightarrow>
                    Some (dx\<lparr>instances :=
                               AList.update name
                                 \<lparr>inst_app = app,
                                  inst_server = server,
                                  inst_routers = cfg_routers cfg,
                                  inst_pathViews = default_to JNull (cfg_pathViews cfg),
                                  inst_pathPublic = default_to JNull (cfg_pathPublic cfg),
                                  inst_port = availablePort,
                                  inst_watchFile = default_to (JBool False) (cfg_watchFile cfg),
                                  inst_launch = default_to (JBool False) (cfg_launch cfg),
                                  inst_moduleLoad = JUndefined,
                                  inst_startTime = date_now e,
                                  inst_lastUpdated = None\<rparr>
                                 (instances dx),
                             listening := listening dx @ [availablePort]\<rparr>,
                          Inr (url_of availablePort)))))"
  using assms
  by (simp add: newServer_def newServer_try_def validateRouters_def load_routes_def setupRoutes_def
      split: prod.splits sum.splits option.splits)


lemma filter_has_route_layers: "filter has_route (map layer_of rs) = map layer_of rs"
  by (induction rs) auto

text \<open>
  Claim C2. \<^verbatim>\<open>#findAvailablePort\<close> with base port \<open>P\<close> and \<open>k\<close> attempts. A base port that does
  not parse or lies outside 1024..65535 is rejected with the range error and no port is
  probed. With \<open>P\<close> in range: if some port of the window \<open>P, ..., P + k - 1\<close> that is a port
  number (at most 65535) is free, the ports up to the first free one are probed and that
  one is returned; if the window ends at 65535 or below and none of its ports is free, all
  \<open>k\<close> are probed and the call fails with the no-available-port error. But if the window
  runs past 65535 and no port from \<open>P\<close> to 65535 is free, the loop goes on to 65536, for
  which \<^verbatim>\<open>listen\<close> throws: the call fails with that RangeError and not with the
  no-available-port error that the method documents for this case. \<^verbatim>\<open>newServer\<close> with a
  new name and an inline list whose routes are accepted and bound fails with the message of
  the error of the negotiation without touching the registry, or else (when the server
  starts listening) registers the instance on the port found.
\<close>

theorem findAvailablePort_outcomes:
  "(parseInt e startPort = Inr None
      \<or> (\<exists>P. parseInt e startPort = Inr (Some P) \<and> (P < 1024 \<or> 65535 < P))
      \<longrightarrow> findAvailablePort e startPort k = ([], Inl (Error MsgPortRange)))
   \<and> (parseInt e startPort = Inr (Some P) \<and> 1024 \<le> P \<and> P \<le> 65535 \<longrightarrow>
        ((\<exists>q. P \<le> q \<and> q < P + int k \<and> q \<le> 65535 \<and> port_probe e q) \<longrightarrow>
           (\<exists>q. findAvailablePort e startPort k = ([P..q], Inr q)
                \<and> P \<le> q \<and> q < P + int k \<and> q \<le> 65535 \<and> port_probe e q
                \<and> (\<forall>q'. P \<le> q' \<and> q' < q \<longrightarrow> \<not> port_probe e q')))
        \<and> (P + int k \<le> 65536 \<and> (\<forall>q. P \<le> q \<and> q < P + int k \<longrightarrow> \<not> port_probe e q) \<longrightarrow>
             findAvailablePort e startPort k
               = ([P..P + int k - 1], Inl (Error (MsgNoAvailablePort k startPort))))
        \<and> (65536 < P + int k \<and> (\<forall>q. P \<le> q \<and> q \<le> 65535 \<longrightarrow> \<not> port_probe e q) \<longrightarrow>
             findAvailablePort e startPort k
               = ([P..65536], Inl (RangeError (MsgBadPort 65536)))))
   \<and> (cfg_name cfg = JStr name \<and> name \<noteq> [] \<and> map_of (instances dx) name = None
        \<and> cfg_routers cfg = JArr rs \<and> list_all (descriptor_accepted e) rs
        \<and> list_all (library_binds e) rs \<longrightarrow>
        (case findAvailablePort e (cfg_port cfg) 10 of
           (probed, Inl err) \<Rightarrow>
             \<exists>dx'. newServer fuel e dx cfg = Some (dx', Inl (Error (error_message err)))
                   \<and> instances dx' = instances dx \<and> listening dx' = listening dx
         | (probed, Inr port) \<Rightarrow>
             app_listen e port = None \<longrightarrow>
               (\<exists>dx' inst. newServer fuel e dx cfg = Some (dx', Inr (url_of port))
                   \<and> map_of (instances dx') name = Some inst
                   \<and> inst_port inst = port \<and> inst_server inst = HttpServer port
                   \<and> listening dx' = listening dx @ [port])))"
proof (intro conjI impI)
  assume "parseInt e startPort = Inr None
      \<or> (\<exists>P. parseInt e startPort = Inr (Some P) \<and> (P < 1024 \<or> 65535 < P))"
  then show "findAvailablePort e startPort k = ([], Inl (Error MsgPortRange))"
    by (rule findAvailablePort_invalid)
next
  assume "parseInt e startPort = Inr (Some P) \<and> 1024 \<le> P \<and> P \<le> 65535"
    and "\<exists>q. P \<le> q \<and> q < P + int k \<and> q \<le> 65535 \<and> port_probe e q"
  then show "\<exists>q. findAvailablePort e startPort k = ([P..q], Inr q)
                \<and> P \<le> q \<and> q < P + int k \<and> q \<le> 65535 \<and> port_probe e q
                \<and> (\<forall>q'. P \<le> q' \<and> q' < q \<longrightarrow> \<not> port_probe e q')"
    using findAvailablePort_free[of e startPort P k] by blast
next
  assume "parseInt e startPort = Inr (Some P) \<and> 1024 \<le> P \<and> P \<le> 65535"
    and "P + int k \<le> 65536 \<and> (\<forall>q. P \<le> q \<and> q < P + int k \<longrightarrow> \<not> port_probe e q)"
  then show "findAvailablePort e startPort k
               = ([P..P + int k - 1], Inl (Error (MsgNoAvailablePort k startPort)))"
    using findAvailablePort_exhausted[of e startPort P k] by blast
next
  assume "parseInt e startPort = Inr (Some P) \<and> 1024 \<le> P \<and> P \<le> 65535"
    and "65536 < P + int k \<and> (\<forall>q. P \<le> q \<and> q \<le> 65535 \<longrightarrow> \<not> port_probe e q)"
  then show "findAvailablePort e startPort k
               = ([P..65536], Inl (RangeError (MsgBadPort 65536)))"
    using findAvailablePort_past_range[of e startPort P k] by blast
next
  assume a: "cfg_name cfg = JStr name \<and> name \<noteq> [] \<and> map_of (instances dx) name = None
        \<and> cfg_routers cfg = JArr rs \<and> list_all (descriptor_accepted e) rs
        \<and> list_all (library_binds e) rs"
  then have shape: "list_all route_shape_ok rs"
    by (auto simp: list_all_iff descriptor_accepted_def)
  obtain probed r where f: "findAvailablePort e (cfg_port cfg) 10 = (probed, r)"
    by (cases "findAvailablePort e (cfg_port cfg) 10")
  from a have acc: "list_all (descriptor_accepted e) rs" and binds: "list_all (library_binds e) rs"
    by simp_all
  note ns = newServer_inline[of cfg name dx rs fuel e]
  show "case findAvailablePort e (cfg_port cfg) 10 of
           (probed, Inl err) \<Rightarrow>
             \<exists>dx'. newServer fuel e dx cfg = Some (dx', Inl (Error (error_message err)))
                   \<and> instances dx' = instances dx \<and> listening dx' = listening dx
         | (probed, Inr port) \<Rightarrow>
             app_listen e port = None \<longrightarrow>
               (\<exists>dx' inst. newServer fuel e dx cfg = Some (dx', Inr (url_of port))
                   \<and> map_of (instances dx') name = Some inst
                   \<and> inst_port inst = port \<and> inst_server inst = HttpServer port
                   \<and> listening dx' = listening dx @ [port])"
  proof (cases r)
    case (Inl err)
    with f ns a shape show ?thesis by simp
  next
    case (Inr port)
    with f ns a shape setupRoutes_forEach_binds[OF acc binds]
    show ?thesis by (simp add: startServer_def update_conv')
  qed
qed

theorem findAvailablePort_outcomes_witness:
  "findAvailablePort demo_env (JNum 3000) 10 = ([3000, 3001, 3002], Inr 3002)
   \<and> findAvailablePort demo_env (JNum 3000) 2
       = ([3000, 3001], Inl (Error (MsgNoAvailablePort 2 (JNum 3000))))
   \<and> findAvailablePort demo_env (JNum 80) 10 = ([], Inl (Error MsgPortRange))
   \<and> findAvailablePort demo_env_last_port (JNum 65535) 10
       = ([65535, 65536], Inl (RangeError (MsgBadPort 65536)))
   \<and> (\<exists>dx' inst. newServer 0 demo_env demo_dynexpress demo_config
                    = Some (dx', Inr ''http://localhost:3002/'')
         \<and> map_of (instances dx') ''api'' = Some inst \<and> inst_port inst = 3002
         \<and> listening dx' = [3002])
   \<and> (\<exists>dx'. newServer 0 demo_env_last_port demo_dynexpress demo_last_port_config
               = Some (dx', Inl (Error (MsgBadPort 65536)))
         \<and> instances dx' = [] \<and> listening dx' = [])"
proof -
  let ?route = "JObj [(''method'', JStr ''GET''), (''path'', JStr ''/''), (''handler'', JFun 1)]"
  have free: "\<exists>q. (3000::int) \<le> q \<and> q < 3000 + int 10 \<and> q \<le> 65535 \<and> port_probe demo_env q"
    by (rule exI[of _ 3002]) (simp add: demo_env_def)
  have occupied: "(3000::int) + int 2 \<le> 65536
      \<and> (\<forall>q. (3000::int) \<le> q \<and> q < 3000 + int 2 \<longrightarrow> \<not> port_probe demo_env q)"
    by (auto simp: demo_env_def)
  have probe: "port_probe demo_env 3002" "\<not> port_probe demo_env 3000"
    "\<not> port_probe demo_env 3001"
    by (simp_all add: demo_env_def)
  have lc: "toLowerCase ''GET'' = ''get''" by (simp add: toLowerCase.simps toLowerCase_char_def)
  have acc: "list_all (descriptor_accepted demo_env) [?route]"
    by (simp add: descriptor_accepted_def route_shape_ok_def lc) (simp add: demo_env_def)
  have binds: "list_all (library_binds demo_env) [?route]"
    by (simp add: library_binds_def lc) (simp add: demo_env_def)
  have acc': "list_all (descriptor_accepted demo_env_last_port) [?route]"
    by (simp add: descriptor_accepted_def route_shape_ok_def lc)
      (simp add: demo_env_last_port_def demo_env_def)
  have binds': "list_all (library_binds demo_env_last_port) [?route]"
    by (simp add: library_binds_def lc) (simp add: demo_env_last_port_def demo_env_def)
  have inrange: "parseInt demo_env (JNum 3000) = Inr (Some 3000) \<and> (1024::int) \<le> 3000
      \<and> (3000::int) \<le> 65535"
    by (simp add: parseInt_number_def)
  from findAvailablePort_outcomes[where e = demo_env and startPort = "JNum 3000" and P = 3000
      and k = 10, THEN conjunct2, THEN conjunct1,
      THEN mp, OF inrange, THEN conjunct1, THEN mp, OF free]
  obtain q where q: "findAvailablePort demo_env (JNum 3000) 10 = ([3000..q], Inr q)"
    "3000 \<le> q" "q < 3000 + int 10" "port_probe demo_env q"
    "\<forall>q'. 3000 \<le> q' \<and> q' < q \<longrightarrow> \<not> port_probe demo_env q'"
    by blast
  have "q = 3002"
  proof -
    have "q \<noteq> 3000" "q \<noteq> 3001" using q(4) probe(2,3) by auto
    then have "\<not> q < 3002" using q(2) by arith
    moreover have "\<not> 3002 < q" using q(5) probe(1) by auto
    ultimately show ?thesis by simp
  qed
  with q(1) have 1: "findAvailablePort demo_env (JNum 3000) 10 = ([3000, 3001, 3002], Inr 3002)"
    by (simp add: upto_rec1)
  from findAvailablePort_outcomes[where e = demo_env and startPort = "JNum 3000" and P = 3000
      and k = 2, THEN conjunct2, THEN conjunct1,
      THEN mp, OF inrange, THEN conjunct2, THEN conjunct1, THEN mp, OF occupied]
  have 2: "findAvailablePort demo_env (JNum 3000) 2
             = ([3000, 3001], Inl (Error (MsgNoAvailablePort 2 (JNum 3000))))"
    by (simp add: upto_rec1)
  have "parseInt demo_env (JNum 80) = Inr None
      \<or> (\<exists>P. parseInt demo_env (JNum 80) = Inr (Some P) \<and> (P < 1024 \<or> 65535 < P))"
    by (simp add: parseInt_number_def)
  from findAvailablePort_outcomes[where e = demo_env and startPort = "JNum 80" and k = 10, THEN conjunct1, THEN mp, OF this]
  have 3: "findAvailablePort demo_env (JNum 80) 10 = ([], Inl (Error MsgPortRange))" .
  have last: "parseInt demo_env_last_port (JNum 65535) = Inr (Some 65535) \<and> (1024::int) \<le> 65535
      \<and> (65535::int) \<le> 65535"
    by (simp add: parseInt_number_def)
  have past: "(65536::int) < 65535 + int 10
      \<and> (\<forall>q. (65535::int) \<le> q \<and> q \<le> 65535 \<longrightarrow> \<not> port_probe demo_env_last_port q)"
    by (auto simp: demo_env_last_port_def)
  from findAvailablePort_outcomes[where e = demo_env_last_port and startPort = "JNum 65535"
      and P = 65535 and k = 10, THEN conjunct2,
      THEN conjunct1, THEN mp, OF last, THEN conjunct2, THEN conjunct2, THEN mp, OF past]
  have 4: "findAvailablePort demo_env_last_port (JNum 65535) 10
             = ([65535, 65536], Inl (RangeError (MsgBadPort 65536)))"
    by (simp add: upto_rec1)
  have hyp: "cfg_name demo_config = JStr ''api'' \<and> ''api'' \<noteq> []
      \<and> map_of (instances demo_dynexpress) ''api'' = None
      \<and> cfg_routers demo_config = JArr [?route] \<and> list_all (descriptor_accepted demo_env) [?route]
      \<and> list_all (library_binds demo_env) [?route]"
    using acc binds by (simp add: demo_config_def demo_dynexpress_def demo_routes_def)
  have port: "cfg_port demo_config = JNum 3000" by (simp add: demo_config_def)
  have listen: "app_listen demo_env 3002 = None" by (simp add: demo_env_def)
  have url: "url_of 3002 = ''http://localhost:3002/''"
    by (simp add: url_of_def string_of_nat.simps)
  have lst: "listening demo_dynexpress = []" "instances demo_dynexpress = []"
    by (simp_all add: demo_dynexpress_def)
  from findAvailablePort_outcomes[where cfg = demo_config and name = "''api''"
      and dx = demo_dynexpress and rs = "[?route]" and e = demo_env and fuel = 0,
      THEN conjunct2, THEN conjunct2, THEN mp, OF hyp]
  have 5: "\<exists>dx' inst. newServer 0 demo_env demo_dynexpress demo_config
                    = Some (dx', Inr ''http://localhost:3002/'')
         \<and> map_of (instances dx') ''api'' = Some inst \<and> inst_port inst = 3002
         \<and> listening dx' = [3002]"
    unfolding port 1 using listen by (simp add: url lst) blast
  have hyp': "cfg_name demo_last_port_config = JStr ''api'' \<and> ''api'' \<noteq> []
      \<and> map_of (instances demo_dynexpress) ''api'' = None
      \<and> cfg_routers demo_last_port_config = JArr [?route]
      \<and> list_all (descriptor_accepted demo_env_last_port) [?route]
      \<and> list_all (library_binds demo_env_last_port) [?route]"
    using acc' binds'
    by (simp add: demo_last_port_config_def demo_config_def demo_dynexpress_def demo_routes_def)
  have port': "cfg_port demo_last_port_config = JNum 65535"
    by (simp add: demo_last_port_config_def)
  from findAvailablePort_outcomes[where cfg = demo_last_port_config and name = "''api''"
      and dx = demo_dynexpress and rs = "[?route]" and e = demo_env_last_port and fuel = 0,
      THEN conjunct2, THEN conjunct2, THEN mp, OF hyp']
  have 6: "\<exists>dx'. newServer 0 demo_env_last_port demo_dynexpress demo_last_port_config
               = Some (dx', Inl (Error (MsgBadPort 65536)))
         \<and> instances dx' = [] \<and> listening dx' = []"
    unfolding port' 4 by (simp add: lst)
  from 1 2 3 4 5 6 show ?thesis by blast
qed

section \<open>Creating an instance\<close>

text \<open>The running manager of the concrete run is what \<^verbatim>\<open>newServer\<close> produces.\<close>

lemma demo_running_created:
  "newServer 2 demo_env_named demo_dynexpress demo_api_config
     = Some (demo_running, Inr ''http://localhost:3002/'')"
  by code_simp





lemma newServer_try_success:
  assumes "newServer_try fuel e dx name cfg = Some (dx', Inr url)"
  shows "\<exists>inst. map_of (instances dx') name = Some inst \<and> url = url_of (inst_port inst)"
  using assms
  by (auto simp: newServer_try_def setupHotReloading_def load_routes_def update_conv' Let_def
      split: sum.splits prod.splits option.splits validated.splits if_splits jsval.splits)

lemma newServer_success:
  assumes "newServer fuel e dx cfg = Some (dx', Inr url)"
  shows "\<exists>name inst. cfg_name cfg = JStr name \<and> name \<noteq> []
           \<and> map_of (instances dx') name = Some inst \<and> url = url_of (inst_port inst)"
proof -
  from assms obtain name where n: "cfg_name cfg = JStr name" "name \<noteq> []"
    by (auto simp: newServer_def split: jsval.splits if_splits)
  show ?thesis
  proof (cases "map_of (instances dx) name")
    case (Some inst)
    with assms n show ?thesis by (auto simp: newServer_def)
  next
    case None
    with assms n have "newServer_try fuel e dx name cfg = Some (dx', Inr url)"
      by (auto simp: newServer_def split: option.splits prod.splits sum.splits)
    from newServer_try_success[OF this] n show ?thesis by blast
  qed
qed

lemma newServer_try_keys:
  assumes "newServer_try fuel e dx name cfg = Some (dx', r)"
  shows "instances dx' = instances dx \<or> (\<exists>inst. instances dx' = AList.update name inst (instances dx))"
  using assms
  by (auto simp: newServer_try_def setupHotReloading_def load_routes_def Let_def
      split: sum.splits prod.splits option.splits validated.splits if_splits jsval.splits)

lemma newServer_keys:
  assumes "newServer fuel e dx cfg = Some (dx', r)"
  shows "instances dx' = instances dx \<or> (\<exists>name inst. instances dx' = AList.update name inst (instances dx))"
proof (cases "\<exists>name. cfg_name cfg = JStr name \<and> name \<noteq> [] \<and> map_of (instances dx) name = None")
  case True
  then obtain name where n: "cfg_name cfg = JStr name" "name \<noteq> []" "map_of (instances dx) name = None"
    by blast
  with assms obtain dx1 r1 where t: "newServer_try fuel e dx name cfg = Some (dx1, r1)"
    and "instances dx' = instances dx1"
    by (auto simp: newServer_def split: option.splits prod.splits sum.splits)
  with newServer_try_keys[OF t] show ?thesis by auto
next
  case False
  with assms have "dx' = dx"
    by (auto simp: newServer_def split: jsval.splits if_splits option.splits)
  then show ?thesis by simp
qed

text \<open>
  Claim C5. \<^verbatim>\<open>newServer\<close> with the name of a registered instance returns the address of
  that instance and leaves the whole state (registry, sockets, engine) as it was, whatever
  the other arguments; so a call made after a successful call with the same name returns
  the same address and changes nothing; and the names of the registry stay distinct.
\<close>

theorem newServer_existing_name:
  "(map_of (instances dx) name = Some inst \<and> name \<noteq> [] \<and> cfg_name cfg = JStr name \<longrightarrow>
      newServer fuel e dx cfg = Some (dx, Inr (url_of (inst_port inst))))
   \<and> (newServer fuel e dx cfg = Some (dx', Inr url) \<and> cfg_name cfg2 = cfg_name cfg \<longrightarrow>
        newServer fuel2 e2 dx' cfg2 = Some (dx', Inr url))
   \<and> (distinct (map fst (instances dx)) \<and> newServer fuel e dx cfg = Some (dx', r) \<longrightarrow>
        distinct (map fst (instances dx')))"
proof (intro conjI impI)
  assume "map_of (instances dx) name = Some inst \<and> name \<noteq> [] \<and> cfg_name cfg = JStr name"
  then show "newServer fuel e dx cfg = Some (dx, Inr (url_of (inst_port inst)))"
    by (simp add: newServer_def)
next
  assume a: "newServer fuel e dx cfg = Some (dx', Inr url) \<and> cfg_name cfg2 = cfg_name cfg"
  with newServer_success[of fuel e dx cfg dx' url]
  obtain nm inst where "cfg_name cfg2 = JStr nm" "nm \<noteq> []" "map_of (instances dx') nm = Some inst"
    "url = url_of (inst_port inst)" by auto
  then show "newServer fuel2 e2 dx' cfg2 = Some (dx', Inr url)"
    by (simp add: newServer_def)
next
  assume a: "distinct (map fst (instances dx)) \<and> newServer fuel e dx cfg = Some (dx', r)"
  with newServer_keys[of fuel e dx cfg dx' r] show "distinct (map fst (instances dx'))"
    by (auto simp: distinct_update)
qed

theorem newServer_existing_name_witness:
  "newServer 0 demo_env demo_running (demo_config\<lparr>cfg_port := JNum 4000\<rparr>)
     = Some (demo_running, Inr ''http://localhost:3002/'')"
proof -
  have h: "map_of (instances demo_running) ''api'' = Some demo_instance \<and> ''api'' \<noteq> []
      \<and> cfg_name (demo_config\<lparr>cfg_port := JNum 4000\<rparr>) = JStr ''api''"
    by (simp add: demo_running_def demo_config_def)
  have url: "url_of (inst_port demo_instance) = ''http://localhost:3002/''"
    by (simp add: demo_instance_def url_of_def string_of_nat.simps)
  from newServer_existing_name[where dx = demo_running and name = "''api''" and inst = demo_instance
      and cfg = "demo_config\<lparr>cfg_port := JNum 4000\<rparr>" and fuel = 0 and e = demo_env,
      THEN conjunct1, THEN mp, OF h]
  show ?thesis by (simp only: url)
qed

section \<open>Reloading a module\<close>

text \<open>The loaded engine of the concrete run is what \<^verbatim>\<open>preload\<close> produces.\<close>

lemma demo_loaded_preloaded:
  "preload demo_env demo_dynreload ''/srv/routes.mjs'' = (demo_loaded, Inr demo_routes)"
  by code_simp

text \<open>
  Claim C1, as stated, fails. A reload whose result is a route list with a route that has
  no handler (which \<^verbatim>\<open>#validateRouteStructure\<close> rejects) succeeds and replaces the last
  valid module; and a failed reload of a silent engine reports nothing.
\<close>

theorem reload_invalid_routes_counterexample:
  "validateRouteStructure demo_invalid_routes = Inl (Error MsgEachRouteProps)
   \<and> snd (reloadModule demo_env_invalid demo_loaded ''/srv/routes.mjs'')
       = ReloadSuccess demo_invalid_routes
   \<and> map_of (lastValidModules demo_loaded) ''/srv/routes.mjs'' = Some demo_module_info
   \<and> map_of (lastValidModules (fst (reloadModule demo_env_invalid demo_loaded ''/srv/routes.mjs'')))
        ''/srv/routes.mjs''
       = Some \<lparr>module = demo_invalid_routes, lastModified = 1800,
               info_filePath = ''/srv/routes.mjs''\<rparr>
   \<and> demo_invalid_routes \<noteq> demo_routes
   \<and> snd (reloadModule demo_env_syntax_error demo_loaded ''/srv/routes.mjs'')
       = ReloadFailure (Error (MsgRuntime 7))
   \<and> fst (reloadModule demo_env_syntax_error demo_loaded ''/srv/routes.mjs'') = demo_loaded"
proof -
  have 1: "validateRouteStructure demo_invalid_routes = Inl (Error MsgEachRouteProps)"
    by (simp add: validateRouteStructure_def demo_invalid_routes_def validateRoute_def)
  have 2: "reloadModule demo_env_invalid demo_loaded ''/srv/routes.mjs''
      = (demo_loaded\<lparr>cache := [(''/srv/routes.mjs'',
               \<lparr>module = demo_invalid_routes, lastModified = 1800, info_filePath = ''/srv/routes.mjs''\<rparr>)],
            lastValidModules := [(''/srv/routes.mjs'',
               \<lparr>module = demo_invalid_routes, lastModified = 1800, info_filePath = ''/srv/routes.mjs''\<rparr>)]\<rparr>,
         ReloadSuccess demo_invalid_routes)"
    by (simp add: reloadModule_def tryImportModule_def demo_env_invalid_def demo_env_def
        demo_loaded_def demo_dynreload_def demo_invalid_routes_def Let_def)
  have 3: "reloadModule demo_env_syntax_error demo_loaded ''/srv/routes.mjs''
      = (demo_loaded, ReloadFailure (Error (MsgRuntime 7)))"
    by (simp add: reloadModule_def tryImportModule_def demo_env_syntax_error_def demo_env_def
        demo_loaded_def demo_dynreload_def console_error_def)
  have 4: "demo_invalid_routes \<noteq> demo_routes"
    by (simp add: demo_invalid_routes_def demo_routes_def)
  show ?thesis
    unfolding 2 3 using 1 4 by (simp add: demo_loaded_def)
qed

text \<open>
  Claim C1, amended. \<^verbatim>\<open>#reloadModule\<close> never throws. It fails exactly when the import fails
  or \<^verbatim>\<open>fs.statSync\<close> throws; then the last valid module and the cache are as before, the
  only change is that the failure is written to the console, and not even that when the
  engine is silent. Otherwise it succeeds and stores \<^verbatim>\<open>module.default || module\<close>
  unvalidated as the last valid module.
\<close>

theorem reload_failure_keeps_last_good:
  assumes "reloadModule e st p = (st', r)"
  shows "((\<exists>err. r = ReloadFailure err) \<longleftrightarrow>
            (\<exists>err. tryImportModule e p = ImportFailure err) \<or> (\<exists>err. statSync e p = Inl err))
     \<and> (\<forall>err. r = ReloadFailure err \<longrightarrow>
            lastValidModules st' = lastValidModules st \<and> cache st' = cache st
            \<and> st' = st\<lparr>console := console st'\<rparr>
            \<and> (silent st \<longrightarrow> st' = st)
            \<and> (\<not> silent st \<longrightarrow>
                  (\<exists>before text. console st' = console st @ before @ [ConsoleError text (Some err)])))
     \<and> (\<forall>m. r = ReloadSuccess m \<longrightarrow>
            (\<exists>ns. import_module e p = Inr ns
                \<and> m = (if truthy (get_prop ns ''default'') then get_prop ns ''default'' else ns))
            \<and> (\<exists>t. statSync e p = Inr t
                \<and> map_of (lastValidModules st') p
                     = Some \<lparr>module = m, lastModified = t, info_filePath = p\<rparr>))"
proof (cases "tryImportModule e p")
  case (ImportFailure err)
  with assms have r: "r = ReloadFailure err"
    and st': "st' = console_error (console_error st (''Invalid module in '' @ p @ ''. Keeping previous version.'') None) ''Error:'' (Some err)"
    by (auto simp: reloadModule_def)
  have "\<not> silent st \<Longrightarrow> console st' = console st @ [ConsoleError (''Invalid module in '' @ p @ ''. Keeping previous version.'') None] @ [ConsoleError ''Error:'' (Some err)]"
    by (simp add: st' console_error_def)
  then have "\<not> silent st \<longrightarrow> (\<exists>before text. console st' = console st @ before @ [ConsoleError text (Some err)])"
    by blast
  moreover have "silent st \<longrightarrow> st' = st" by (simp add: st' console_error_def)
  moreover have "st' = st\<lparr>console := console st'\<rparr>" by (simp add: st' console_error_def)
  moreover have "lastValidModules st' = lastValidModules st \<and> cache st' = cache st"
    by (simp add: st' console_error_def)
  ultimately show ?thesis using r ImportFailure by auto
next
  case (ImportSuccess newModule m)
  then obtain ns where ns: "import_module e p = Inr ns"
    "newModule = (if truthy (get_prop ns ''default'') then get_prop ns ''default'' else ns)"
    by (auto simp: tryImportModule_def split: sum.splits if_splits)
  show ?thesis
  proof (cases "statSync e p")
    case (Inl err)
    with assms ImportSuccess have r: "r = ReloadFailure err"
      and st': "st' = console_error st (''Error reloading module '' @ p @ '':'') (Some err)"
      by (auto simp: reloadModule_def)
    have "\<not> silent st \<Longrightarrow> console st' = console st @ [] @ [ConsoleError (''Error reloading module '' @ p @ '':'') (Some err)]"
      by (simp add: st' console_error_def)
    then have "\<not> silent st \<longrightarrow> (\<exists>before text. console st' = console st @ before @ [ConsoleError text (Some err)])"
      by blast
    moreover have "silent st \<longrightarrow> st' = st" by (simp add: st' console_error_def)
    moreover have "st' = st\<lparr>console := console st'\<rparr>" by (simp add: st' console_error_def)
    moreover have "lastValidModules st' = lastValidModules st \<and> cache st' = cache st"
      by (simp add: st' console_error_def)
    ultimately show ?thesis using r Inl by auto
  next
    case (Inr t)
    with assms ImportSuccess have r: "r = ReloadSuccess newModule"
      and st': "st' = st\<lparr>cache := AList.update p \<lparr>module = newModule, lastModified = t, info_filePath = p\<rparr> (cache st),
                        lastValidModules := AList.update p \<lparr>module = newModule, lastModified = t, info_filePath = p\<rparr> (lastValidModules st)\<rparr>"
      by (auto simp: reloadModule_def Let_def)
    show ?thesis using r st' Inr ImportSuccess ns by (simp add: update_conv')
  qed
qed

theorem reload_failure_keeps_last_good_witness:
  "snd (reloadModule demo_env_syntax_error (demo_loaded\<lparr>silent := False\<rparr>) ''/srv/routes.mjs'')
     = ReloadFailure (Error (MsgRuntime 7))
   \<and> lastValidModules (fst (reloadModule demo_env_syntax_error (demo_loaded\<lparr>silent := False\<rparr>)
                              ''/srv/routes.mjs''))
       = [(''/srv/routes.mjs'', demo_module_info)]"
proof -
  obtain st' r where sr: "reloadModule demo_env_syntax_error (demo_loaded\<lparr>silent := False\<rparr>) ''/srv/routes.mjs'' = (st', r)"
    by (cases "reloadModule demo_env_syntax_error (demo_loaded\<lparr>silent := False\<rparr>) ''/srv/routes.mjs''")
  have imp: "tryImportModule demo_env_syntax_error ''/srv/routes.mjs'' = ImportFailure (Error (MsgRuntime 7))"
    by (simp add: tryImportModule_def demo_env_syntax_error_def)
  note t = reload_failure_keeps_last_good[OF sr]
  from t[THEN conjunct1] imp obtain err where r: "r = ReloadFailure err" by blast
  with sr imp have "err = Error (MsgRuntime 7)" by (simp add: reloadModule_def)
  with t[THEN conjunct2, THEN conjunct1] r
  have "lastValidModules st' = lastValidModules (demo_loaded\<lparr>silent := False\<rparr>)" by blast
  with r \<open>err = Error (MsgRuntime 7)\<close> show ?thesis
    unfolding sr by (simp add: demo_loaded_def)
qed

section \<open>Stopping a watch\<close>

text \<open>
  Claim C9, as stated, fails. For a path that has a callback but no watcher,
  \<^verbatim>\<open>stopWatching\<close> changes nothing: the callback stays registered, and the next reload of
  the path calls it.
\<close>

theorem stopWatching_unwatched_counterexample:
  "stopWatching demo_unwatched ''/srv/routes.mjs'' = demo_unwatched
   \<and> map_of (routeUpdateCallbacks (stopWatching demo_unwatched ''/srv/routes.mjs'')) ''/srv/routes.mjs''
       = Some (RouteUpdateCallback ''api'' (JBool False))
   \<and> snd (reload_loop demo_env
             (demo_dynexpress\<lparr>dynreload := stopWatching demo_unwatched ''/srv/routes.mjs''\<rparr>)
             [''/srv/routes.mjs''])
       = [''/srv/routes.mjs'']"
proof -
  have 1: "stopWatching demo_unwatched ''/srv/routes.mjs'' = demo_unwatched"
    by (simp add: stopWatching_def demo_unwatched_def setRouteUpdateCallback_def demo_loaded_def
        demo_dynreload_def)
  have 2: "map_of (routeUpdateCallbacks demo_unwatched) ''/srv/routes.mjs''
       = Some (RouteUpdateCallback ''api'' (JBool False))"
    by (simp add: demo_unwatched_def setRouteUpdateCallback_def demo_loaded_def demo_dynreload_def)
  have 3: "reloadModule demo_env demo_unwatched ''/srv/routes.mjs'' = (demo_unwatched, ReloadSuccess demo_routes)"
    by (simp add: reloadModule_def tryImportModule_def demo_env_def demo_unwatched_def
        setRouteUpdateCallback_def demo_loaded_def demo_dynreload_def demo_module_info_def Let_def
        demo_routes_def)
  have 4: "snd (reload_loop demo_env (demo_dynexpress\<lparr>dynreload := demo_unwatched\<rparr>) [''/srv/routes.mjs''])
       = [''/srv/routes.mjs'']"
    by (simp add: 3 2 split: prod.splits)
  show ?thesis unfolding 1 using 2 4 by simp
qed

lemma reloadModule_callbacks:
  "reloadModule e st p = (st', r) \<Longrightarrow> routeUpdateCallbacks st' = routeUpdateCallbacks st"
  by (auto simp: reloadModule_def console_error_def Let_def
      split: import_result.splits sum.splits if_splits)

lemma routeUpdateCallback_callbacks:
  "routeUpdateCallbacks (dynreload (routeUpdateCallback e dx n l m)) = routeUpdateCallbacks (dynreload dx)"
  by (auto simp: routeUpdateCallback_def console_error_def console_log_def
      split: option.splits prod.splits)

lemma reload_loop_not_called:
  "map_of (routeUpdateCallbacks (dynreload dx)) p = None \<Longrightarrow> p \<notin> set (snd (reload_loop e dx ms))"
proof (induction ms arbitrary: dx)
  case Nil
  then show ?case by simp
next
  case (Cons m ms)
  obtain dr r where rm: "reloadModule e (dynreload dx) m = (dr, r)"
    by (cases "reloadModule e (dynreload dx) m")
  have cb: "routeUpdateCallbacks dr = routeUpdateCallbacks (dynreload dx)"
    using rm by (rule reloadModule_callbacks)
  have none: "map_of (routeUpdateCallbacks (dynreload (dx\<lparr>dynreload := dr\<rparr>))) p = None"
    using Cons.prems cb by simp
  show ?case
  proof (cases r)
    case (ReloadFailure err)
    with rm Cons.IH[OF none] show ?thesis by simp
  next
    case (ReloadSuccess v)
    show ?thesis
    proof (cases "map_of (routeUpdateCallbacks dr) m")
      case None
      with rm ReloadSuccess Cons.IH[OF none] show ?thesis by simp
    next
      case (Some c)
      obtain n l where c: "c = RouteUpdateCallback n l" by (cases c)
      have mp: "m \<noteq> p" using Some Cons.prems cb by auto
      have none': "map_of (routeUpdateCallbacks (dynreload (routeUpdateCallback e (dx\<lparr>dynreload := dr\<rparr>) n l v))) p = None"
        using none by (simp add: routeUpdateCallback_callbacks)
      obtain dx' called where rl:
        "reload_loop e (routeUpdateCallback e (dx\<lparr>dynreload := dr\<rparr>) n l v) ms = (dx', called)"
        by (cases "reload_loop e (routeUpdateCallback e (dx\<lparr>dynreload := dr\<rparr>) n l v) ms")
      with Cons.IH[OF none'] have "p \<notin> set called" by simp
      with rl rm ReloadSuccess Some c mp show ?thesis by simp
    qed
  qed
qed

text \<open>
  Claim C9, amended. For a path \<open>p\<close> that is watched, after \<^verbatim>\<open>stopWatching(p)\<close> the path is
  no longer in \<^verbatim>\<open>watchedFiles\<close>, its watcher is closed, no callback is registered for it,
  and whatever modules are reloaded from that state, no callback is called for \<open>p\<close>. For a
  path that is not watched, \<^verbatim>\<open>stopWatching(p)\<close> leaves the engine as it is.
\<close>

theorem stopWatching_watched:
  "(map_of (watchedFiles st) p = Some (FSWatcher w) \<longrightarrow>
      map_of (watchedFiles (stopWatching st p)) p = None
      \<and> map_of (routeUpdateCallbacks (stopWatching st p)) p = None
      \<and> subscriptions (stopWatching st p) = remove1 w (subscriptions st)
      \<and> (\<forall>e dx ms. dynreload dx = stopWatching st p \<longrightarrow> p \<notin> set (snd (reload_loop e dx ms))))
   \<and> (map_of (watchedFiles st) p = None \<longrightarrow> stopWatching st p = st)"
proof (intro conjI impI)
  assume w: "map_of (watchedFiles st) p = Some (FSWatcher w)"
  then show "map_of (watchedFiles (stopWatching st p)) p = None"
    by (simp add: stopWatching_def delete_conv')
  from w show cb: "map_of (routeUpdateCallbacks (stopWatching st p)) p = None"
    by (simp add: stopWatching_def delete_conv')
  from w show "subscriptions (stopWatching st p) = remove1 w (subscriptions st)"
    by (simp add: stopWatching_def)
  show "\<forall>e dx ms. dynreload dx = stopWatching st p \<longrightarrow> p \<notin> set (snd (reload_loop e dx ms))"
    using cb reload_loop_not_called by metis
next
  assume "map_of (watchedFiles st) p = None"
  then show "stopWatching st p = st" by (simp add: stopWatching_def)
qed

theorem stopWatching_watched_witness:
  "map_of (watchedFiles (dynreload demo_running)) ''/srv/routes.mjs'' = Some (FSWatcher ''/srv/routes.mjs'')
   \<and> watchedFiles (stopWatching (dynreload demo_running) ''/srv/routes.mjs'') = []
   \<and> map_of (routeUpdateCallbacks (stopWatching (dynreload demo_running) ''/srv/routes.mjs''))
        ''/srv/routes.mjs'' = None
   \<and> subscriptions (stopWatching (dynreload demo_running) ''/srv/routes.mjs'') = []
   \<and> ''/srv/routes.mjs'' \<notin> set (snd (reload_loop demo_env
         (demo_running\<lparr>dynreload := stopWatching (dynreload demo_running) ''/srv/routes.mjs''\<rparr>)
         [''/srv/routes.mjs'']))"
proof -
  have h: "map_of (watchedFiles (dynreload demo_running)) ''/srv/routes.mjs'' = Some (FSWatcher ''/srv/routes.mjs'')"
    by (simp add: demo_running_def)
  note t = stopWatching_watched[of "dynreload demo_running" "''/srv/routes.mjs''" "''/srv/routes.mjs''",
      THEN conjunct1, THEN mp, OF h]
  have w: "watchedFiles (stopWatching (dynreload demo_running) ''/srv/routes.mjs'') = []"
    by (simp add: stopWatching_def demo_running_def)
  have s: "remove1 ''/srv/routes.mjs'' (subscriptions (dynreload demo_running)) = []"
    by (simp add: demo_running_def)
  from t have "''/srv/routes.mjs'' \<notin> set (snd (reload_loop demo_env
         (demo_running\<lparr>dynreload := stopWatching (dynreload demo_running) ''/srv/routes.mjs''\<rparr>)
         [''/srv/routes.mjs'']))"
    by (simp del: reload_loop.simps)
  with t h w s show ?thesis by (simp del: reload_loop.simps)
qed

section \<open>Adding a route\<close>

text \<open>
  Claim C7, as stated, fails. With no instance \<^verbatim>\<open>ghost\<close> and an empty descriptor the error
  is the one of the method check, not the not-found error; and with the running instance
  \<^verbatim>\<open>api\<close> and the method \<^verbatim>\<open>FLY\<close>, which the application object lacks, what is thrown is the
  TypeError of calling a property that is not a function.
\<close>

theorem addRoute_order_counterexample:
  "map_of (instances demo_dynexpress) ''ghost'' = None
   \<and> addRoute demo_env demo_dynexpress ''ghost'' (JObj [])
       = (demo_dynexpress, Some (Error MsgRouteMethodRequired))
   \<and> Error MsgRouteMethodRequired \<noteq> Error (MsgServerNotFound ''ghost'')
   \<and> addRoute demo_env demo_running ''api'' demo_unsupported_route
       = (demo_running, Some (TypeError (MsgNotAFunction ''instance.app[methodLower]'')))"
proof -
  have 1: "addRoute demo_env demo_dynexpress ''ghost'' (JObj [])
       = (demo_dynexpress, Some (Error MsgRouteMethodRequired))"
    by (simp add: addRoute_def)
  have lc: "toLowerCase ''FLY'' = ''fly''" by (simp add: toLowerCase.simps toLowerCase_char_def)
  have nf: "\<not> app_has_function demo_env ''fly''" by (simp add: demo_env_def)
  have 2: "addRoute demo_env demo_running ''api'' demo_unsupported_route
       = (demo_running, Some (TypeError (MsgNotAFunction ''instance.app[methodLower]'')))"
    using nf by (simp add: addRoute_def demo_unsupported_route_def lc demo_running_def)
  show ?thesis using 1 2 by (simp add: demo_dynexpress_def)
qed

text \<open>
  Claim C7, amended. For a descriptor object, \<^verbatim>\<open>addRoute\<close> first checks method, path and
  handler and fails with the error of the first check that fails, whether or not the
  instance exists; a descriptor that passes fails with the not-found error when no instance
  has the name. When the instance exists and the lower-case method names a function of the
  application object, that function is called at once with the path, the middleware if it
  is a function, and the handler: if the library binds the descriptor as a route, the
  route is appended to the router stack of that instance, the engine being touched only by
  the console line; and if the call throws, \<^verbatim>\<open>addRoute\<close> throws the same error, nothing is
  written to the console, and the application object is as the call left it.
\<close>

theorem addRoute_outcomes:
  assumes "\<not> nullish d"
  shows "(\<not> params_ok d \<longrightarrow>
            (\<exists>msg. addRoute e dx n d = (dx, Some (Error msg))
               \<and> msg \<in> {MsgRouteMethodRequired, MsgRoutePathRequired, MsgRouteHandlerRequired}))
     \<and> (params_ok d \<and> map_of (instances dx) n = None \<longrightarrow>
            addRoute e dx n d = (dx, Some (Error (MsgServerNotFound n))))
     \<and> (params_ok d \<and> map_of (instances dx) n = Some inst
          \<and> get_prop d ''method'' = JStr m \<and> app_has_function e (toLowerCase m)
          \<and> library_binds e d \<longrightarrow>
            addRoute e dx n d
              = (dx\<lparr>instances :=
                      AList.update n
                        (inst\<lparr>inst_app :=
                           (inst_app inst)\<lparr>stack := stack (inst_app inst) @ [layer_of d]\<rparr>\<rparr>)
                        (instances dx),
                    dynreload := console_log (dynreload dx) (''New route added to '' @ n)\<rparr>,
                 None))
     \<and> (params_ok d \<and> map_of (instances dx) n = Some inst
          \<and> get_prop d ''method'' = JStr m \<and> app_has_function e (toLowerCase m)
          \<and> app_call e (toLowerCase m) (get_prop d ''path'')
               (middleware_arg (get_prop d ''middleware'')) (get_prop d ''handler'')
               (inst_app inst) = (app', Some err) \<longrightarrow>
            addRoute e dx n d
              = (dx\<lparr>instances := AList.update n (inst\<lparr>inst_app := app'\<rparr>) (instances dx)\<rparr>,
                 Some err))"
proof (intro conjI impI)
  assume "\<not> params_ok d"
  with assms show "\<exists>msg. addRoute e dx n d = (dx, Some (Error msg))
               \<and> msg \<in> {MsgRouteMethodRequired, MsgRoutePathRequired, MsgRouteHandlerRequired}"
    by (auto simp: addRoute_def params_ok_def)
next
  assume "params_ok d \<and> map_of (instances dx) n = None"
  with assms show "addRoute e dx n d = (dx, Some (Error (MsgServerNotFound n)))"
    by (auto simp: addRoute_def params_ok_def)
next
  assume a: "params_ok d \<and> map_of (instances dx) n = Some inst
          \<and> get_prop d ''method'' = JStr m \<and> app_has_function e (toLowerCase m)
          \<and> library_binds e d"
  then have m: "get_prop d ''method'' = JStr m" and lb: "library_binds e d" by simp_all
  from lb have "app_call e (case get_prop d ''method'' of JStr m \<Rightarrow> toLowerCase m | _ \<Rightarrow> [])
               (get_prop d ''path'') (middleware_arg (get_prop d ''middleware''))
               (get_prop d ''handler'') (inst_app inst)
      = ((inst_app inst)\<lparr>stack := stack (inst_app inst) @ [layer_of d]\<rparr>, None)"
    unfolding library_binds_def by (rule spec)
  then have call: "app_call e (toLowerCase m) (get_prop d ''path'')
               (middleware_arg (get_prop d ''middleware'')) (get_prop d ''handler'')
               (inst_app inst)
      = ((inst_app inst)\<lparr>stack := stack (inst_app inst) @ [layer_of d]\<rparr>, None)"
    by (simp add: m del: layer_of.simps)
  from a assms show "addRoute e dx n d
              = (dx\<lparr>instances :=
                      AList.update n
                        (inst\<lparr>inst_app :=
                           (inst_app inst)\<lparr>stack := stack (inst_app inst) @ [layer_of d]\<rparr>\<rparr>)
                        (instances dx),
                    dynreload := console_log (dynreload dx) (''New route added to '' @ n)\<rparr>,
                 None)"
    by (auto simp: addRoute_def params_ok_def call simp del: layer_of.simps)
next
  assume a: "params_ok d \<and> map_of (instances dx) n = Some inst
          \<and> get_prop d ''method'' = JStr m \<and> app_has_function e (toLowerCase m)
          \<and> app_call e (toLowerCase m) (get_prop d ''path'')
               (middleware_arg (get_prop d ''middleware'')) (get_prop d ''handler'')
               (inst_app inst) = (app', Some err)"
  with assms show "addRoute e dx n d
              = (dx\<lparr>instances := AList.update n (inst\<lparr>inst_app := app'\<rparr>) (instances dx)\<rparr>,
                 Some err)"
    by (auto simp: addRoute_def params_ok_def)
qed

theorem addRoute_outcomes_witness:
  "map_of (instances (fst (addRoute demo_env demo_running ''api'' demo_post_route))) ''api''
     = Some (demo_instance\<lparr>inst_app :=
               \<lparr>stack = [MiddlewareLayer ''urlencoded'', MiddlewareLayer ''json'',
                          MiddlewareLayer ''security headers'',
                          RouteLayer ''get'' (JStr ''/'') None (JFun 1),
                          RouteLayer ''post'' (JStr ''/data'') None (JFun 3)],
                settings = [(''view engine'', JStr ''ejs''),
                            (''views'', JStr ''/srv/bin/views'')]\<rparr>\<rparr>)
   \<and> snd (addRoute demo_env demo_running ''api'' demo_post_route) = None
   \<and> addRoute demo_env demo_running ''api'' demo_bad_path_route
       = (demo_running, Some (Error (MsgRuntime 3)))"
proof -
  have lc: "toLowerCase ''POST'' = ''post''" by (simp add: toLowerCase.simps toLowerCase_char_def)
  have lay: "layer_of demo_post_route = RouteLayer ''post'' (JStr ''/data'') None (JFun 3)"
    by (simp add: demo_post_route_def lc middleware_arg_def)
  have binds: "library_binds demo_env demo_post_route"
    unfolding library_binds_def lay
    by (simp add: demo_post_route_def lc middleware_arg_def) (simp add: demo_env_def)
  have h: "params_ok demo_post_route \<and> map_of (instances demo_running) ''api'' = Some demo_instance
          \<and> get_prop demo_post_route ''method'' = JStr ''POST''
          \<and> app_has_function demo_env (toLowerCase ''POST'')
          \<and> library_binds demo_env demo_post_route"
    unfolding lc using binds
    by (simp add: params_ok_def demo_post_route_def demo_running_def demo_env_def)
  have nn: "\<not> nullish demo_post_route" by (simp add: demo_post_route_def)
  from addRoute_outcomes[OF nn, where e = demo_env and dx = demo_running and n = "''api''"
      and inst = demo_instance and m = "''POST''",
      THEN conjunct2, THEN conjunct2, THEN conjunct1, THEN mp, OF h]
  have 1: "map_of (instances (fst (addRoute demo_env demo_running ''api'' demo_post_route))) ''api''
     = Some (demo_instance\<lparr>inst_app :=
               \<lparr>stack = [MiddlewareLayer ''urlencoded'', MiddlewareLayer ''json'',
                          MiddlewareLayer ''security headers'',
                          RouteLayer ''get'' (JStr ''/'') None (JFun 1),
                          RouteLayer ''post'' (JStr ''/data'') None (JFun 3)],
                settings = [(''view engine'', JStr ''ejs''),
                            (''views'', JStr ''/srv/bin/views'')]\<rparr>\<rparr>)
   \<and> snd (addRoute demo_env demo_running ''api'' demo_post_route) = None"
    by (simp add: lay update_conv' del: layer_of.simps) (simp add: demo_instance_def)
  have h': "params_ok demo_bad_path_route
          \<and> map_of (instances demo_running) ''api'' = Some demo_instance
          \<and> get_prop demo_bad_path_route ''method'' = JStr ''POST''
          \<and> app_has_function demo_env (toLowerCase ''POST'')
          \<and> app_call demo_env (toLowerCase ''POST'') (get_prop demo_bad_path_route ''path'')
               (middleware_arg (get_prop demo_bad_path_route ''middleware''))
               (get_prop demo_bad_path_route ''handler'') (inst_app demo_instance)
             = (inst_app demo_instance, Some (Error (MsgRuntime 3)))"
    unfolding lc
    by (simp add: params_ok_def demo_bad_path_route_def demo_running_def demo_env_def)
  have nn': "\<not> nullish demo_bad_path_route" by (simp add: demo_bad_path_route_def)
  have same: "demo_running\<lparr>instances :=
        AList.update ''api'' (demo_instance\<lparr>inst_app := inst_app demo_instance\<rparr>)
          (instances demo_running)\<rparr> = demo_running"
    by (simp add: demo_running_def)
  from addRoute_outcomes[OF nn', where e = demo_env and dx = demo_running and n = "''api''"
      and inst = demo_instance and m = "''POST''" and app' = "inst_app demo_instance"
      and err = "Error (MsgRuntime 3)",
      THEN conjunct2, THEN conjunct2, THEN conjunct2, THEN mp, OF h']
  have 2: "addRoute demo_env demo_running ''api'' demo_bad_path_route
       = (demo_running, Some (Error (MsgRuntime 3)))"
    unfolding same .
  from 1 2 show ?thesis by simp
qed

section \<open>The named export after a reload\<close>

lemma select_routes_missing:
  "l \<noteq> [] \<Longrightarrow> \<not> nullish newRoutes \<Longrightarrow> \<not> truthy (get_member e newRoutes l) \<Longrightarrow>
     select_routes e (JStr l) newRoutes = Inr newRoutes"
  by (simp add: select_routes_def)

lemma select_routes_no_selector: "select_routes e (JBool False) newRoutes = Inr newRoutes"
  by (simp add: select_routes_def)

lemma filter_route_cleared: "filter has_route (filter (\<lambda>layer. \<not> has_route layer) ls) = []"
  by (induction ls) auto

lemma routeUpdateCallback_binds:
  assumes "map_of (instances dx) n = Some inst" "select_routes e launch newRoutes = Inr (JArr rs)"
    and "list_all (descriptor_accepted e) rs" "list_all (library_binds e) rs"
  shows "instance_routes (routeUpdateCallback e dx n launch newRoutes) n = Some (map layer_of rs)
     \<and> (\<exists>inst'. map_of (instances (routeUpdateCallback e dx n launch newRoutes)) n = Some inst'
           \<and> inst_moduleLoad inst' = newRoutes)"
  using assms(1,2) setupRoutes_forEach_binds[OF assms(3,4)]
  by (simp add: routeUpdateCallback_def instance_routes_def setupRoutes_def update_conv'
      filter_has_route_layers filter_route_cleared)

lemma setupRoutes_not_array:
  "\<forall>rs. routes \<noteq> JArr rs \<Longrightarrow> setupRoutes e app routes = (app, Some (TypeError MsgRoutesMustBeArray))"
  by (cases routes) (simp_all add: setupRoutes_def)

lemma routeUpdateCallback_not_array:
  assumes "map_of (instances dx) n = Some inst" "select_routes e launch newRoutes = Inr routes"
    and "\<forall>rs. routes \<noteq> JArr rs"
  shows "routeUpdateCallback e dx n launch newRoutes
     = dx\<lparr>instances :=
            AList.update n
              (inst\<lparr>inst_moduleLoad := newRoutes,
                    inst_lastUpdated := Some (date_now e),
                    inst_app := (inst_app inst)\<lparr>stack := filter (\<lambda>layer. \<not> has_route layer)
                                                         (stack (inst_app inst))\<rparr>\<rparr>)
              (instances dx),
          dynreload :=
            console_error (dynreload dx) (''Error updating routes for server '' @ n)
              (Some (TypeError MsgRoutesMustBeArray))\<rparr>"
  using assms(1,2) setupRoutes_not_array[OF assms(3)]
  by (simp add: routeUpdateCallback_def)

lemma preload_success:
  assumes "existsSync e f" "tryImportModule e f = ImportSuccess newRoutes ns" "statSync e f = Inr t"
  shows "\<exists>dr. preload e st f = (dr, Inr newRoutes)"
  using assms by (simp add: preload_def Let_def)

lemma newServer_launch_missing:
  assumes "cfg_name cfg = JStr name" "name \<noteq> []" "map_of (instances dx) name = None"
    and "cfg_routers cfg = JStr f" "extname f = ''.js'' \<or> extname f = ''.mjs''"
    and "existsSync e f" "tryImportModule e f = ImportSuccess newRoutes ns" "statSync e f = Inr t"
    and "cfg_launch cfg = JStr l" "l \<noteq> []" "\<not> truthy (get_member e newRoutes l)"
  shows "\<exists>dx'. newServer fuel e dx cfg = Some (dx', Inl (Error (MsgPropertyNotFound l)))
           \<and> instances dx' = instances dx \<and> listening dx' = listening dx"
proof -
  from preload_success[OF assms(6-8), of "dynreload dx"]
  obtain dr where p: "preload e (dynreload dx) f = (dr, Inr newRoutes)" by blast
  have v: "validateRouters e (cfg_routers cfg) = Inr (FileRoutes f)"
    using assms(4-6) by (auto simp: validateRouters_def)
  have "load_routes e dx (FileRoutes f) (default_to (JBool False) (cfg_launch cfg))
          = (dx\<lparr>dynreload := dr\<rparr>, Inl (Error (MsgPropertyNotFound l)))"
    using p assms(9-11) by (simp add: load_routes_def default_to_def)
  with v assms(1-3) show ?thesis
    by (simp add: newServer_def newServer_try_def)
qed

text \<open>
  Claim C10, as stated, fails. The instance \<^verbatim>\<open>api\<close> of the running manager serves the route
  of the export \<^verbatim>\<open>apiRoutes\<close>. The file then renames that export; it still loads, so the
  reload succeeds and the callback is called with the module namespace, which has no
  property \<^verbatim>\<open>apiRoutes\<close>. The callback falls back to the namespace itself, which is not a
  list: the routes of the instance have been cleared, \<^verbatim>\<open>#setupRoutes\<close> throws, and the
  instance is left with no route at all.
\<close>

theorem launch_export_renamed_counterexample:
  "instance_routes demo_running ''api'' = Some [RouteLayer ''get'' (JStr ''/'') None (JFun 1)]
   \<and> map_of (routeUpdateCallbacks (dynreload demo_running)) ''/srv/routes.mjs''
       = Some (RouteUpdateCallback ''api'' (JStr ''apiRoutes''))
   \<and> snd (reloadModule demo_env_renamed (dynreload demo_running) ''/srv/routes.mjs'')
       = ReloadSuccess demo_renamed_module
   \<and> \<not> truthy (get_member demo_env_renamed demo_renamed_module ''apiRoutes'')
   \<and> snd (setupRoutes demo_env_renamed (inst_app demo_instance) demo_renamed_module)
       = Some (TypeError MsgRoutesMustBeArray)
   \<and> reload_loop demo_env_renamed demo_running [''/srv/routes.mjs'']
       = (demo_after_rename, [''/srv/routes.mjs''])
   \<and> instance_routes demo_after_rename ''api'' = Some []"
proof -
  have 1: "instance_routes demo_running ''api''
      = Some [RouteLayer ''get'' (JStr ''/'') None (JFun 1)]"
    by (simp add: instance_routes_def demo_running_def demo_instance_def)
  have 2: "map_of (routeUpdateCallbacks (dynreload demo_running)) ''/srv/routes.mjs''
       = Some (RouteUpdateCallback ''api'' (JStr ''apiRoutes''))"
    by (simp add: demo_running_def)
  have 3: "snd (reloadModule demo_env_renamed (dynreload demo_running) ''/srv/routes.mjs'')
       = ReloadSuccess demo_renamed_module"
    by code_simp
  have 4: "\<not> truthy (get_member demo_env_renamed demo_renamed_module ''apiRoutes'')"
    by (simp add: get_member_def demo_renamed_module_def demo_env_renamed_def demo_env_def)
  have 5: "snd (setupRoutes demo_env_renamed (inst_app demo_instance) demo_renamed_module)
       = Some (TypeError MsgRoutesMustBeArray)"
    by (simp add: setupRoutes_def demo_renamed_module_def)
  have 6: "reload_loop demo_env_renamed demo_running [''/srv/routes.mjs'']
       = (demo_after_rename, [''/srv/routes.mjs''])"
    by code_simp
  have 7: "instance_routes demo_after_rename ''api'' = Some []"
    by (simp add: instance_routes_def demo_after_rename_def)
  from 1 2 3 4 5 6 7 show ?thesis by simp
qed

text \<open>
  Claim C10, amended. Let the launch selector be a non-empty string \<open>l\<close> and let the module
  a reload produced have no truthy member \<open>l\<close>, own or inherited. The route-update callback
  then does exactly what it does without a selector: it hands the whole module to
  \<^verbatim>\<open>#setupRoutes\<close>, and the reload loop goes on to the next module. When the module is a list
  of descriptors that are accepted and that the library binds, the routes of the instance
  are those descriptors afterwards. When the module is not a list (the namespace of a file
  without default export, say), the routes of the instance have been cleared before
  \<^verbatim>\<open>#setupRoutes\<close> throws: the error is caught and logged, and the instance is left with no
  route. \<^verbatim>\<open>newServer\<close> with the same selector, for a new name and a route file that loads to
  the same module, fails with the property-not-found error and registers nothing.
\<close>

theorem launch_export_fallback:
  assumes "l \<noteq> []" "\<not> nullish newRoutes" "\<not> truthy (get_member e newRoutes l)"
  shows "routeUpdateCallback e dx n (JStr l) newRoutes = routeUpdateCallback e dx n (JBool False) newRoutes
     \<and> select_routes e (JStr l) newRoutes = Inr newRoutes
     \<and> (reloadModule e (dynreload dx) f = (dr, ReloadSuccess newRoutes)
          \<and> map_of (routeUpdateCallbacks dr) f = Some (RouteUpdateCallback n (JStr l)) \<longrightarrow>
          reload_loop e dx [f]
            = (routeUpdateCallback e (dx\<lparr>dynreload := dr\<rparr>) n (JBool False) newRoutes, [f]))
     \<and> (map_of (instances dx) n = Some inst \<and> newRoutes = JArr rs
          \<and> list_all (descriptor_accepted e) rs \<and> list_all (library_binds e) rs \<longrightarrow>
          instance_routes (routeUpdateCallback e dx n (JStr l) newRoutes) n = Some (map layer_of rs)
          \<and> (\<exists>inst'. map_of (instances (routeUpdateCallback e dx n (JStr l) newRoutes)) n = Some inst'
                \<and> inst_moduleLoad inst' = newRoutes))
     \<and> (map_of (instances dx) n = Some inst \<and> (\<forall>rs. newRoutes \<noteq> JArr rs) \<longrightarrow>
          routeUpdateCallback e dx n (JStr l) newRoutes
            = dx\<lparr>instances :=
                   AList.update n
                     (inst\<lparr>inst_moduleLoad := newRoutes,
                           inst_lastUpdated := Some (date_now e),
                           inst_app := (inst_app inst)\<lparr>stack := filter (\<lambda>layer. \<not> has_route layer)
                                                                (stack (inst_app inst))\<rparr>\<rparr>)
                     (instances dx),
                 dynreload :=
                   console_error (dynreload dx) (''Error updating routes for server '' @ n)
                     (Some (TypeError MsgRoutesMustBeArray))\<rparr>
          \<and> instance_routes (routeUpdateCallback e dx n (JStr l) newRoutes) n = Some [])
     \<and> (cfg_name cfg = JStr name \<and> name \<noteq> [] \<and> map_of (instances dx0) name = None
          \<and> cfg_routers cfg = JStr f \<and> (extname f = ''.js'' \<or> extname f = ''.mjs'')
          \<and> existsSync e f \<and> tryImportModule e f = ImportSuccess newRoutes ns
          \<and> statSync e f = Inr t \<and> cfg_launch cfg = JStr l \<longrightarrow>
          (\<exists>dx'. newServer fuel e dx0 cfg = Some (dx', Inl (Error (MsgPropertyNotFound l)))
             \<and> instances dx' = instances dx0 \<and> listening dx' = listening dx0))"
proof (intro conjI impI)
  have sel: "select_routes e (JStr l) newRoutes = select_routes e (JBool False) newRoutes"
    using assms by (simp add: select_routes_missing select_routes_no_selector)
  show eq: "routeUpdateCallback e dx n (JStr l) newRoutes = routeUpdateCallback e dx n (JBool False) newRoutes"
    for dx
    unfolding routeUpdateCallback_def sel by (rule refl)
  show s: "select_routes e (JStr l) newRoutes = Inr newRoutes"
    using assms by (rule select_routes_missing)
  {
    assume a: "reloadModule e (dynreload dx) f = (dr, ReloadSuccess newRoutes)
          \<and> map_of (routeUpdateCallbacks dr) f = Some (RouteUpdateCallback n (JStr l))"
    then show "reload_loop e dx [f]
            = (routeUpdateCallback e (dx\<lparr>dynreload := dr\<rparr>) n (JBool False) newRoutes, [f])"
      by (simp add: eq)
  }
  {
    assume a: "map_of (instances dx) n = Some inst \<and> newRoutes = JArr rs
          \<and> list_all (descriptor_accepted e) rs \<and> list_all (library_binds e) rs"
    then have sa: "select_routes e (JStr l) newRoutes = Inr (JArr rs)" using s by simp
    from a have i: "map_of (instances dx) n = Some inst"
      and acc: "list_all (descriptor_accepted e) rs" and binds: "list_all (library_binds e) rs"
      by simp_all
    note b = routeUpdateCallback_binds[OF i sa acc binds]
    from b show "instance_routes (routeUpdateCallback e dx n (JStr l) newRoutes) n
        = Some (map layer_of rs)" by (rule conjunct1)
    from b show "\<exists>inst'. map_of (instances (routeUpdateCallback e dx n (JStr l) newRoutes)) n = Some inst'
                \<and> inst_moduleLoad inst' = newRoutes" by (rule conjunct2)
  }
  {
    assume a: "map_of (instances dx) n = Some inst \<and> (\<forall>rs. newRoutes \<noteq> JArr rs)"
    then have i: "map_of (instances dx) n = Some inst" and na: "\<forall>rs. newRoutes \<noteq> JArr rs"
      by simp_all
    note c = routeUpdateCallback_not_array[OF i s na]
    show "routeUpdateCallback e dx n (JStr l) newRoutes
            = dx\<lparr>instances :=
                   AList.update n
                     (inst\<lparr>inst_moduleLoad := newRoutes,
                           inst_lastUpdated := Some (date_now e),
                           inst_app := (inst_app inst)\<lparr>stack := filter (\<lambda>layer. \<not> has_route layer)
                                                                (stack (inst_app inst))\<rparr>\<rparr>)
                     (instances dx),
                 dynreload :=
                   console_error (dynreload dx) (''Error updating routes for server '' @ n)
                     (Some (TypeError MsgRoutesMustBeArray))\<rparr>"
      by (rule c)
    show "instance_routes (routeUpdateCallback e dx n (JStr l) newRoutes) n = Some []"
      unfolding c by (simp add: instance_routes_def update_conv' filter_route_cleared)
  }
  {
    assume a: "cfg_name cfg = JStr name \<and> name \<noteq> [] \<and> map_of (instances dx0) name = None
          \<and> cfg_routers cfg = JStr f \<and> (extname f = ''.js'' \<or> extname f = ''.mjs'')
          \<and> existsSync e f \<and> tryImportModule e f = ImportSuccess newRoutes ns
          \<and> statSync e f = Inr t \<and> cfg_launch cfg = JStr l"
    then show "\<exists>dx'. newServer fuel e dx0 cfg = Some (dx', Inl (Error (MsgPropertyNotFound l)))
             \<and> instances dx' = instances dx0 \<and> listening dx' = listening dx0"
      using newServer_launch_missing[of cfg name dx0 f e newRoutes ns t l fuel] assms by blast
  }
qed

theorem launch_export_fallback_witness:
  "instance_routes (routeUpdateCallback demo_env demo_running ''api'' (JStr ''apiRoutes'')
                      demo_routes) ''api''
     = Some [RouteLayer ''get'' (JStr ''/'') None (JFun 1)]
   \<and> instance_routes (routeUpdateCallback demo_env_renamed demo_running ''api'' (JStr ''apiRoutes'')
                        demo_renamed_module) ''api''
       = Some []
   \<and> (\<exists>dx'. newServer 0 demo_env demo_dynexpress demo_file_config
               = Some (dx', Inl (Error (MsgPropertyNotFound ''apiRoutes'')))
         \<and> instances dx' = [] \<and> listening dx' = [])"
proof -
  let ?route = "JObj [(''method'', JStr ''GET''), (''path'', JStr ''/''), (''handler'', JFun 1)]"
  have l: "''apiRoutes'' \<noteq> []" by simp
  have nn: "\<not> nullish demo_routes" by (simp add: demo_routes_def)
  have idx: "array_index ''apiRoutes'' = None" by (simp add: array_index_def is_digit_def)
  have missing: "\<not> truthy (get_member demo_env demo_routes ''apiRoutes'')"
    by (simp add: get_member_def demo_routes_def idx) (simp add: demo_env_def)
  have lc: "toLowerCase ''GET'' = ''get''" by (simp add: toLowerCase.simps toLowerCase_char_def)
  have acc: "list_all (descriptor_accepted demo_env) [?route]"
    by (simp add: descriptor_accepted_def route_shape_ok_def lc) (simp add: demo_env_def)
  have binds: "list_all (library_binds demo_env) [?route]"
    by (simp add: library_binds_def lc) (simp add: demo_env_def)
  have lay: "map layer_of [?route] = [RouteLayer ''get'' (JStr ''/'') None (JFun 1)]"
    by (simp add: lc middleware_arg_def)
  have h1: "map_of (instances demo_running) ''api'' = Some demo_instance \<and> demo_routes = JArr [?route]
          \<and> list_all (descriptor_accepted demo_env) [?route]
          \<and> list_all (library_binds demo_env) [?route]"
    using acc binds by (simp add: demo_running_def demo_routes_def)
  have imp: "tryImportModule demo_env ''/srv/routes.mjs''
               = ImportSuccess demo_routes (JObj [(''default'', demo_routes)])"
    by (simp add: tryImportModule_def demo_env_def demo_routes_def)
  have ext: "extname ''/srv/routes.mjs'' = ''.mjs''" by (simp add: extname_def basename_def)
  have h2: "cfg_name demo_file_config = JStr ''web'' \<and> ''web'' \<noteq> []
          \<and> map_of (instances demo_dynexpress) ''web'' = None
          \<and> cfg_routers demo_file_config = JStr ''/srv/routes.mjs''
          \<and> (extname ''/srv/routes.mjs'' = ''.js'' \<or> extname ''/srv/routes.mjs'' = ''.mjs'')
          \<and> existsSync demo_env ''/srv/routes.mjs''
          \<and> tryImportModule demo_env ''/srv/routes.mjs''
               = ImportSuccess demo_routes (JObj [(''default'', demo_routes)])
          \<and> statSync demo_env ''/srv/routes.mjs'' = Inr 1700
          \<and> cfg_launch demo_file_config = JStr ''apiRoutes''"
    unfolding ext imp by (simp add: demo_file_config_def demo_dynexpress_def demo_env_def)
  note t = launch_export_fallback[OF l nn missing]
  from t[where dx = demo_running and n = "''api''" and inst = demo_instance and rs = "[?route]",
      THEN conjunct2, THEN conjunct2, THEN conjunct2, THEN conjunct1, THEN mp, OF h1,
      THEN conjunct1]
  have 1: "instance_routes (routeUpdateCallback demo_env demo_running ''api'' (JStr ''apiRoutes'')
                      demo_routes) ''api''
     = Some [RouteLayer ''get'' (JStr ''/'') None (JFun 1)]"
    unfolding lay .
  from t[where cfg = demo_file_config and name = "''web''" and dx0 = demo_dynexpress
      and f = "''/srv/routes.mjs''" and ns = "JObj [(''default'', demo_routes)]" and t = 1700
      and fuel = 0,
      THEN conjunct2, THEN conjunct2, THEN conjunct2, THEN conjunct2, THEN conjunct2, THEN mp,
      OF h2]
  have 2: "\<exists>dx'. newServer 0 demo_env demo_dynexpress demo_file_config
               = Some (dx', Inl (Error (MsgPropertyNotFound ''apiRoutes'')))
         \<and> instances dx' = [] \<and> listening dx' = []"
    by (simp add: demo_dynexpress_def)
  have nn': "\<not> nullish demo_renamed_module" by (simp add: demo_renamed_module_def)
  have missing': "\<not> truthy (get_member demo_env_renamed demo_renamed_module ''apiRoutes'')"
    by (simp add: get_member_def demo_renamed_module_def demo_env_renamed_def demo_env_def)
  have h3: "map_of (instances demo_running) ''api'' = Some demo_instance
          \<and> (\<forall>rs. demo_renamed_module \<noteq> JArr rs)"
    by (simp add: demo_running_def demo_renamed_module_def)
  from launch_export_fallback[OF l nn' missing', where dx = demo_running and n = "''api''"
      and inst = demo_instance,
      THEN conjunct2, THEN conjunct2, THEN conjunct2, THEN conjunct2, THEN conjunct1, THEN mp,
      OF h3, THEN conjunct2]
  have 3: "instance_routes (routeUpdateCallback demo_env_renamed demo_running ''api''
                        (JStr ''apiRoutes'') demo_renamed_module) ''api'' = Some []" .
  from 1 2 3 show ?thesis by blast
qed

section \<open>Shutting down\<close>

lemma watchedFiles_stopWatching:
  "watchedFiles (stopWatching st p) = AList.delete p (watchedFiles st)"
proof (cases "map_of (watchedFiles st) p")
  case None
  then have "p \<notin> fst ` set (watchedFiles st)" by (simp add: map_of_eq_None_iff)
  then have "AList.delete p (watchedFiles st) = watchedFiles st" by (rule delete_id)
  with None show ?thesis by (simp add: stopWatching_def)
next
  case (Some w)
  then show ?thesis by (cases w) (simp add: stopWatching_def)
qed

lemma fold_delete_eq: "fold AList.delete ks al = filter (\<lambda>(k, v). k \<notin> set ks) al"
proof (induction ks arbitrary: al)
  case Nil
  then show ?case by simp
next
  case (Cons k ks)
  have "fold AList.delete (k # ks) al = filter (\<lambda>(k', v). k' \<notin> set ks) (AList.delete k al)"
    using Cons.IH by simp
  also have "\<dots> = filter (\<lambda>(k', v). k' \<notin> set (k # ks)) al"
    by (auto simp: AList.delete_eq intro: filter_cong)
  finally show ?case .
qed

lemma watchedFiles_fold_stopWatching:
  "watchedFiles (fold (\<lambda>p s. stopWatching s p) ks st) = fold AList.delete ks (watchedFiles st)"
  by (induction ks arbitrary: st) (simp_all add: watchedFiles_stopWatching)

lemma watchedFiles_stopWatchingAll: "watchedFiles (stopWatchingAll st) = []"
proof -
  have "filter (\<lambda>(k, v). k \<notin> set (map fst (watchedFiles st))) (watchedFiles st) = []"
    by (force simp: filter_empty_conv)
  then show ?thesis
    by (simp add: stopWatchingAll_def watchedFiles_fold_stopWatching fold_delete_eq)
qed

lemma remove1_map_fst_delete:
  "distinct (map fst al) \<Longrightarrow> remove1 p (map fst al) = map fst (AList.delete p al)"
proof (induction al)
  case Nil
  then show ?case by simp
next
  case (Cons x al)
  obtain k v where x: "x = (k, v)" by (cases x)
  show ?case
  proof (cases "k = p")
    case True
    with Cons.prems x have "p \<notin> fst ` set al" by auto
    then have "AList.delete p al = al" by (rule delete_id)
    with True x show ?thesis by simp
  next
    case False
    with Cons x show ?thesis by simp
  qed
qed

lemma watch_consistent_stopWatching:
  assumes "watch_consistent st"
  shows "watch_consistent (stopWatching st p)"
proof (cases "map_of (watchedFiles st) p")
  case None
  with assms show ?thesis by (simp add: stopWatching_def)
next
  case (Some w)
  then have mem: "(p, w) \<in> set (watchedFiles st)" by (rule map_of_SomeD)
  with assms have w: "w = FSWatcher p" by (auto simp: watch_consistent_def list_all_iff)
  have d: "distinct (map fst (watchedFiles st))" using assms by (simp add: watch_consistent_def)
  have "list_all (\<lambda>(p, w). w = FSWatcher p) (AList.delete p (watchedFiles st))"
    using assms by (auto simp: watch_consistent_def list_all_iff AList.delete_eq)
  moreover have "remove1 p (subscriptions st) = map fst (AList.delete p (watchedFiles st))"
    using assms remove1_map_fst_delete[OF d] by (simp add: watch_consistent_def)
  moreover have "distinct (map fst (AList.delete p (watchedFiles st)))"
    using d by (rule distinct_delete)
  ultimately show ?thesis using Some w by (simp add: stopWatching_def watch_consistent_def)
qed

lemma watch_consistent_console_error:
  "watch_consistent st \<Longrightarrow> watch_consistent (console_error st t err)"
  by (simp add: watch_consistent_def console_error_def)

lemma watch_consistent_fold:
  "watch_consistent st \<Longrightarrow> watch_consistent (fold (\<lambda>p s. stopWatching s p) ks st)"
  by (induction ks arbitrary: st) (simp_all add: watch_consistent_stopWatching)

lemma subscriptions_stopWatchingAll:
  assumes "watch_consistent st"
  shows "subscriptions (stopWatchingAll st) = []"
proof -
  have "watch_consistent (stopWatchingAll st)"
    using assms by (simp add: stopWatchingAll_def watch_consistent_fold)
  then show ?thesis by (simp add: watch_consistent_def watchedFiles_stopWatchingAll)
qed

text \<open>One \<^verbatim>\<open>stopServer(name).catch(...)\<close>: it never rejects.\<close>

lemma stop_one:
  "\<exists>dx1 x. catch_and_log name (stopServer e dx name) = (dx1, Inr x)
     \<and> defaultViewsPath dx1 = defaultViewsPath dx
     \<and> (watch_consistent (dynreload dx) \<longrightarrow> watch_consistent (dynreload dx1))
     \<and> instances dx1 =
         (case map_of (instances dx) name of
            None \<Rightarrow> instances dx
          | Some inst \<Rightarrow> if close_fails e inst then instances dx
                          else AList.delete name (instances dx))"
proof (cases "map_of (instances dx) name")
  case None
  then show ?thesis
    by (simp add: stopServer_def catch_and_log_def watch_consistent_console_error)
next
  case (Some inst)
  obtain p where p: "inst_server inst = HttpServer p" by (cases "inst_server inst")
  let ?dx1 = "(case inst_routers inst of
                    JStr routerFile \<Rightarrow>
                      if truthy (inst_watchFile inst)
                        then dx\<lparr>dynreload := stopWatching (dynreload dx) routerFile\<rparr>
                      else dx
                  | _ \<Rightarrow> dx)"
  have i: "instances ?dx1 = instances dx" "defaultViewsPath ?dx1 = defaultViewsPath dx"
    by (simp_all split: jsval.splits)
  have w: "watch_consistent (dynreload dx) \<longrightarrow> watch_consistent (dynreload ?dx1)"
    by (simp add: watch_consistent_stopWatching split: jsval.splits)
  show ?thesis
  proof (cases "server_close e p")
    case None
    with Some p i w show ?thesis
      by (simp add: stopServer_def catch_and_log_def close_fails_def Let_def)
  next
    case (Some err)
    with \<open>map_of (instances dx) name = Some inst\<close> p i w show ?thesis
      by (simp add: stopServer_def catch_and_log_def close_fails_def Let_def
          watch_consistent_console_error)
  qed
qed

lemma map_of_distinct_entry:
  "distinct (map fst al) \<Longrightarrow> map_of al k = Some v \<Longrightarrow> (k, v') \<in> set al \<Longrightarrow> v' = v"
  by (metis map_of_is_SomeI option.inject)

lemma stop_one_filter:
  assumes "distinct (map fst (instances dx))"
    and "catch_and_log name (stopServer e dx name) = (dx1, r)"
  shows "instances dx1 = filter (\<lambda>(n, i). n \<noteq> name \<or> close_fails e i) (instances dx)"
proof -
  from stop_one[of name e dx] assms(2)
  have eq: "instances dx1 =
         (case map_of (instances dx) name of
            None \<Rightarrow> instances dx
          | Some inst \<Rightarrow> if close_fails e inst then instances dx
                          else AList.delete name (instances dx))"
    by auto
  show ?thesis
  proof (cases "map_of (instances dx) name")
    case None
    then have "name \<notin> fst ` set (instances dx)" by (simp add: map_of_eq_None_iff)
    then have "filter (\<lambda>(n, i). n \<noteq> name \<or> close_fails e i) (instances dx) = instances dx"
      by (force simp: filter_id_conv)
    with eq None show ?thesis by simp
  next
    case (Some inst)
    have same: "\<And>i'. (name, i') \<in> set (instances dx) \<Longrightarrow> i' = inst"
      using map_of_distinct_entry[OF assms(1) Some] .
    show ?thesis
    proof (cases "close_fails e inst")
      case True
      have "filter (\<lambda>(n, i). n \<noteq> name \<or> close_fails e i) (instances dx) = instances dx"
        using same True by (auto simp: filter_id_conv)
      with eq Some True show ?thesis by simp
    next
      case False
      have "filter (\<lambda>(n, i). n \<noteq> name \<or> close_fails e i) (instances dx)
              = filter (\<lambda>(n, i). n \<noteq> name) (instances dx)"
        using same False by (auto intro!: filter_cong)
      also have "\<dots> = AList.delete name (instances dx)"
        by (auto simp: AList.delete_eq intro!: filter_cong)
      finally show ?thesis using eq Some False by simp
    qed
  qed
qed

lemma stop_all_spec:
  assumes "distinct (map fst (instances dx))"
  shows "instances (fst (stop_all e dx names))
           = filter (\<lambda>(n, i). n \<notin> set names \<or> close_fails e i) (instances dx)"
  using assms
proof (induction names arbitrary: dx)
  case Nil
  then show ?case by simp
next
  case (Cons name names)
  obtain dx1 r where one: "catch_and_log name (stopServer e dx name) = (dx1, r)"
    by (cases "catch_and_log name (stopServer e dx name)")
  have i1: "instances dx1 = filter (\<lambda>(n, i). n \<noteq> name \<or> close_fails e i) (instances dx)"
    using Cons.prems one by (rule stop_one_filter)
  then have d1: "distinct (map fst (instances dx1))"
    using Cons.prems by (simp add: distinct_map_filter)
  have "instances (fst (stop_all e dx (name # names))) = instances (fst (stop_all e dx1 names))"
    using one by (simp split: prod.splits)
  also have "\<dots> = filter (\<lambda>(n, i). n \<notin> set names \<or> close_fails e i) (instances dx1)"
    using d1 by (rule Cons.IH)
  also have "\<dots> = filter (\<lambda>(n, i). n \<notin> set (name # names) \<or> close_fails e i) (instances dx)"
    unfolding i1 by (auto intro!: filter_cong)
  finally show ?case .
qed

lemma stop_all_settled:
  "length (snd (stop_all e dx names)) = length names
   \<and> (\<forall>r \<in> set (snd (stop_all e dx names)). \<not> isl r)
   \<and> (watch_consistent (dynreload dx) \<longrightarrow> watch_consistent (dynreload (fst (stop_all e dx names))))"
proof (induction names arbitrary: dx)
  case Nil
  then show ?case by simp
next
  case (Cons name names)
  from stop_one[of name e dx] obtain dx1 x where
    one: "catch_and_log name (stopServer e dx name) = (dx1, Inr x)"
    and w: "watch_consistent (dynreload dx) \<longrightarrow> watch_consistent (dynreload dx1)" by blast
  with Cons.IH[of dx1] show ?case by (auto split: prod.splits)
qed

lemma promise_all_settled: "\<forall>r \<in> set rs. \<not> isl r \<Longrightarrow> \<exists>xs. promise_all rs = Inr xs"
proof (induction rs)
  case Nil
  then show ?case by simp
next
  case (Cons r rs)
  then obtain x where "r = Inr x" by (cases r) auto
  with Cons show ?case by auto
qed

text \<open>
  Claim C6. \<^verbatim>\<open>cleanup\<close> throws nothing, whatever the registry holds and whichever stops
  fail: there is one stop per registered instance, each settled without rejection; the
  instances whose server closed are removed and those whose close failed stay; afterwards
  the engine watches nothing, has no callback, cache, last valid module or dependency
  edge, and every watcher is closed.
\<close>

theorem cleanup_completes:
  "snd (cleanup e dx) = None
   \<and> length (snd (stop_all e dx (map fst (instances dx)))) = length (instances dx)
   \<and> (\<forall>r \<in> set (snd (stop_all e dx (map fst (instances dx)))). \<not> isl r)
   \<and> watchedFiles (dynreload (fst (cleanup e dx))) = []
   \<and> routeUpdateCallbacks (dynreload (fst (cleanup e dx))) = []
   \<and> cache (dynreload (fst (cleanup e dx))) = []
   \<and> lastValidModules (dynreload (fst (cleanup e dx))) = []
   \<and> dependencyGraph (dynreload (fst (cleanup e dx))) = []
   \<and> (watch_consistent (dynreload dx) \<longrightarrow> subscriptions (dynreload (fst (cleanup e dx))) = [])
   \<and> (distinct (map fst (instances dx)) \<longrightarrow>
        instances (fst (cleanup e dx)) = filter (\<lambda>(n, i). close_fails e i) (instances dx))"
proof -
  obtain dx1 rs where sa: "stop_all e dx (map fst (instances dx)) = (dx1, rs)"
    by (cases "stop_all e dx (map fst (instances dx))")
  from stop_all_settled[of e dx "map fst (instances dx)"] sa
  have len: "length rs = length (instances dx)" and settled: "\<forall>r \<in> set rs. \<not> isl r"
    and wc: "watch_consistent (dynreload dx) \<longrightarrow> watch_consistent (dynreload dx1)"
    by auto
  from promise_all_settled[OF settled] obtain xs where pa: "promise_all rs = Inr xs" by blast
  have c: "cleanup e dx = (dx1\<lparr>dynreload := dynreload_cleanup (dynreload dx1)\<rparr>, None)"
    using sa pa by (simp add: cleanup_def)
  have inst: "distinct (map fst (instances dx)) \<longrightarrow>
        instances dx1 = filter (\<lambda>(n, i). close_fails e i) (instances dx)"
  proof
    assume d: "distinct (map fst (instances dx))"
    have "instances dx1 = filter (\<lambda>(n, i). n \<notin> set (map fst (instances dx)) \<or> close_fails e i) (instances dx)"
      using stop_all_spec[OF d, of e "map fst (instances dx)"] sa by simp
    also have "\<dots> = filter (\<lambda>(n, i). close_fails e i) (instances dx)"
      by (rule filter_cong) force+
    finally show "instances dx1 = filter (\<lambda>(n, i). close_fails e i) (instances dx)" .
  qed
  show ?thesis
    unfolding c sa using len settled wc inst
    by (simp add: dynreload_cleanup_def watchedFiles_stopWatchingAll subscriptions_stopWatchingAll)
qed

theorem cleanup_completes_witness:
  "snd (cleanup demo_env_close_fails demo_running) = None
   \<and> watchedFiles (dynreload (fst (cleanup demo_env_close_fails demo_running))) = []
   \<and> subscriptions (dynreload (fst (cleanup demo_env_close_fails demo_running))) = []
   \<and> instances (fst (cleanup demo_env_close_fails demo_running)) = [(''api'', demo_instance)]
   \<and> snd (cleanup demo_env demo_running) = None
   \<and> instances (fst (cleanup demo_env demo_running)) = []
   \<and> snd (cleanup demo_env demo_dynexpress) = None"
proof -
  have wc: "watch_consistent (dynreload demo_running)"
    by (simp add: watch_consistent_def demo_running_def demo_dynreload_def)
  have d: "distinct (map fst (instances demo_running))" by (simp add: demo_running_def)
  have f1: "filter (\<lambda>(n, i). close_fails demo_env_close_fails i) (instances demo_running)
              = [(''api'', demo_instance)]"
    by (simp add: demo_running_def close_fails_def demo_instance_def demo_env_close_fails_def)
  have f2: "filter (\<lambda>(n, i). close_fails demo_env i) (instances demo_running) = []"
    by (simp add: demo_running_def close_fails_def demo_instance_def demo_env_def)
  note a = cleanup_completes[of demo_env_close_fails demo_running]
  note b = cleanup_completes[of demo_env demo_running]
  note c = cleanup_completes[of demo_env demo_dynexpress]
  from a wc d f1 have 1: "snd (cleanup demo_env_close_fails demo_running) = None
   \<and> watchedFiles (dynreload (fst (cleanup demo_env_close_fails demo_running))) = []
   \<and> subscriptions (dynreload (fst (cleanup demo_env_close_fails demo_running))) = []
   \<and> instances (fst (cleanup demo_env_close_fails demo_running)) = [(''api'', demo_instance)]"
    by simp
  from b d f2 have 2: "snd (cleanup demo_env demo_running) = None
   \<and> instances (fst (cleanup demo_env demo_running)) = []" by simp
  from c have 3: "snd (cleanup demo_env demo_dynexpress) = None" by simp
  from 1 2 3 show ?thesis by blast
qed

end
